theory Spec2Isabelle
  imports Complex_Main
begin

section \<open>Arrays and matrices\<close>

text \<open>
  A numpy array of doubles is a shape and its entries in row-major order. The entries are
  reals: every theorem below is about which routine is called on which array, which error
  is raised, and how rows are selected and reordered, none of which rounds a number.
  A scipy sparse matrix is kept apart from a dense array by its tag only (\<open>sp.issparse\<close>);
  its payload is what \<open>toarray()\<close> returns.
\<close>

datatype ndarray = NDArray (shape: "nat list") (data: "real list")

datatype matrix = Dense ndarray | Sparse ndarray

definition ndim :: "ndarray \<Rightarrow> nat" where
  "ndim b = length (shape b)"

definition zeros :: "nat list \<Rightarrow> ndarray" where
  "zeros s = NDArray s (replicate (prod_list s) 0)"

text \<open>\<^verbatim>\<open>any(i == 0 for i in b.shape)\<close>\<close>

definition has_zero_axis :: "ndarray \<Rightarrow> bool" where
  "has_zero_axis b = (0 \<in> set (shape b))"

definition issparse :: "matrix \<Rightarrow> bool" where
  "issparse A = (case A of Sparse _ \<Rightarrow> True | Dense _ \<Rightarrow> False)"

definition toarray :: "matrix \<Rightarrow> ndarray" where
  "toarray A = (case A of Sparse a \<Rightarrow> a | Dense a \<Rightarrow> a)"

text \<open>
  \<open>as_sparse_or_array(A, dtype=float)\<close> keeps a sparse matrix sparse (as csc) and a dense
  one dense; \<open>as_array(A, dtype=float)\<close> densifies. Neither changes an entry.
\<close>

definition as_sparse_or_array :: "matrix \<Rightarrow> matrix" where
  "as_sparse_or_array A = (if issparse A then Sparse (toarray A) else Dense (toarray A))"

definition as_array :: "matrix \<Rightarrow> ndarray" where
  "as_array A = (if issparse A then toarray A else toarray A)"

fun chunks :: "nat \<Rightarrow> nat \<Rightarrow> 'a list \<Rightarrow> 'a list list" where
  "chunks k 0 xs = []"
| "chunks k (Suc n) xs = take k xs # chunks k n (drop k xs)"

text \<open>The slices of an array along its first axis.\<close>

definition axis0 :: "ndarray \<Rightarrow> real list list" where
  "axis0 b = chunks (prod_list (tl (shape b))) (hd (shape b)) (data b)"

section \<open>Exceptions, backend calls and warnings\<close>

text \<open>
  What an external routine (LAPACK through f2py, SuperLU, CHOLMOD) can raise by itself:
  CHOLMOD's not-positive-definite error, or anything else (a numbered opaque failure).
\<close>

datatype backend_exc = CholmodNotPositiveDefiniteError | BackendFailure nat

text \<open>
  The exceptions of the module, one constructor per \<open>raise\<close> of the source, and those the
  interpreter and numpy raise on the module's own statements. \<open>NonFiniteResult\<close> is no
  exception of Python's: it marks a run in which numpy computes with \<open>inf\<close> or \<open>nan\<close>,
  numbers the model does not have, and the model says nothing about what such a run returns.
\<close>

datatype exc =
    IllegalArgument int
  | ExactlySingularU int
  | NotPosDefMinor int
  | ZeroDiagonal int
  | BadRhsDimension
  | BlockSingular
  | ShapeMismatch
  | IndexError
  | NameError string
  | Backend backend_exc
  | NonFiniteResult

datatype exc_class =
    LinAlgError | ValueError | IndexErrorClass | NameErrorClass
  | CholmodNotPositiveDefiniteErrorClass | OtherClass | NotAnException

fun class_of :: "exc \<Rightarrow> exc_class" where
  "class_of (IllegalArgument _) = ValueError"
| "class_of (ExactlySingularU _) = LinAlgError"
| "class_of (NotPosDefMinor _) = LinAlgError"
| "class_of (ZeroDiagonal _) = LinAlgError"
| "class_of BadRhsDimension = ValueError"
| "class_of BlockSingular = LinAlgError"
| "class_of ShapeMismatch = ValueError"
| "class_of IndexError = IndexErrorClass"
| "class_of (NameError _) = NameErrorClass"
| "class_of (Backend CholmodNotPositiveDefiniteError) = CholmodNotPositiveDefiniteErrorClass"
| "class_of (Backend (BackendFailure _)) = OtherClass"
| "class_of NonFiniteResult = NotAnException"

datatype routine =
    DGETRF | DGETRS | DPOTRF | DPOTRS | DTRTRS
  | SPILU | SUPERLU_SOLVE
  | CHOLMOD_CHOLESKY | CHOLMOD_D | CHOLMOD_P | CHOLMOD_SOLVE_A | CHOLMOD_SOLVE_L | CHOLMOD_L

datatype event = Call routine | Warn string

text \<open>
  An operation returns its value or the exception it raised, together with the backend
  routines it called and the warnings it emitted, in order.
\<close>

type_synonym 'a res = "(exc + 'a) \<times> event list"

definition ret :: "'a \<Rightarrow> 'a res" where
  "ret x = (Inr x, [])"

definition raise :: "exc \<Rightarrow> 'a res" where
  "raise e = (Inl e, [])"

definition bind :: "'a res \<Rightarrow> ('a \<Rightarrow> 'b res) \<Rightarrow> 'b res" where
  "bind m f =
     (case m of
        (Inl e, t) \<Rightarrow> (Inl e, t)
      | (Inr x, t) \<Rightarrow> (case f x of (r, t') \<Rightarrow> (r, t @ t')))"

definition call :: "routine \<Rightarrow> backend_exc + 'a \<Rightarrow> 'a res" where
  "call c r = (case r of Inl e \<Rightarrow> (Inl (Backend e), [Call c]) | Inr v \<Rightarrow> (Inr v, [Call c]))"

definition warn :: "string \<Rightarrow> unit res" where
  "warn msg = (Inr (), [Warn msg])"

definition calls :: "'a res \<Rightarrow> routine list" where
  "calls m = concat (map (\<lambda>ev. case ev of Call c \<Rightarrow> [c] | Warn _ \<Rightarrow> []) (snd m))"

definition warnings :: "'a res \<Rightarrow> string list" where
  "warnings m = concat (map (\<lambda>ev. case ev of Call _ \<Rightarrow> [] | Warn w \<Rightarrow> [w]) (snd m))"

definition outcome :: "'a res \<Rightarrow> exc + 'a" where
  "outcome m = fst m"

section \<open>The external routines\<close>

text \<open>
  The LAPACK wrappers return their arrays and \<open>info\<close>; SuperLU and CHOLMOD return an opaque
  factor object (types \<open>'lu\<close> and \<open>'ch\<close>) with methods. They are parameters of the model:
  the module's code is verified for every behaviour of theirs.
\<close>

record ('lu, 'ch) backend =
  dgetrf :: "ndarray \<Rightarrow> backend_exc + (ndarray \<times> int list \<times> int)"
  dgetrs :: "ndarray \<Rightarrow> int list \<Rightarrow> ndarray \<Rightarrow> backend_exc + (ndarray \<times> int)"
  dpotrf :: "ndarray \<Rightarrow> bool \<Rightarrow> backend_exc + (ndarray \<times> int)"
  dpotrs :: "ndarray \<Rightarrow> ndarray \<Rightarrow> bool \<Rightarrow> backend_exc + (ndarray \<times> int)"
  dtrtrs :: "ndarray \<Rightarrow> ndarray \<Rightarrow> bool \<Rightarrow> backend_exc + (ndarray \<times> int)"
  spilu :: "ndarray \<Rightarrow> backend_exc + 'lu"
  superlu_solve :: "'lu \<Rightarrow> ndarray \<Rightarrow> backend_exc + ndarray"
  cholmod_cholesky :: "ndarray \<Rightarrow> backend_exc + 'ch"
  factor_D :: "'ch \<Rightarrow> backend_exc + ndarray"
  factor_P :: "'ch \<Rightarrow> backend_exc + nat list"
  factor_solve_A :: "'ch \<Rightarrow> ndarray \<Rightarrow> backend_exc + ndarray"
  factor_solve_L :: "'ch \<Rightarrow> ndarray \<Rightarrow> backend_exc + ndarray"
  factor_L :: "'ch \<Rightarrow> backend_exc + ndarray"

section \<open>Wrappers for the LAPACK routines\<close>

definition lu :: "('lu, 'ch) backend \<Rightarrow> ndarray \<Rightarrow> (ndarray \<times> int list) res" where
  "lu bk A =
     (if shape A = [0, 0] then ret (zeros [0, 0], [])
      else bind (call DGETRF (dgetrf bk A)) (\<lambda>(fac, piv, info).
        if info < 0 then raise (IllegalArgument (- info))
        else if info > 0 then raise (ExactlySingularU info)
        else ret (fac, piv)))"

definition solve_lu ::
  "('lu, 'ch) backend \<Rightarrow> ndarray \<Rightarrow> int list \<Rightarrow> ndarray \<Rightarrow> ndarray res" where
  "solve_lu bk fac piv b =
     (if has_zero_axis b then ret (zeros (shape b))
      else bind (call DGETRS (dgetrs bk fac piv b)) (\<lambda>(x, info).
        if info \<noteq> 0 then raise (IllegalArgument (- info))
        else ret x))"

definition cholesky :: "('lu, 'ch) backend \<Rightarrow> ndarray \<Rightarrow> bool \<Rightarrow> ndarray res" where
  "cholesky bk A lower =
     (if shape A = [0, 0] then ret (zeros [0, 0])
      else bind (call DPOTRF (dpotrf bk A lower)) (\<lambda>(L, info).
        if info > 0 then raise (NotPosDefMinor info)
        else if info < 0 then raise (IllegalArgument (- info))
        else ret L))"

definition solve_cholesky ::
  "('lu, 'ch) backend \<Rightarrow> ndarray \<Rightarrow> ndarray \<Rightarrow> bool \<Rightarrow> ndarray res" where
  "solve_cholesky bk L b lower =
     (if has_zero_axis b then ret (zeros (shape b))
      else bind (call DPOTRS (dpotrs bk L b lower)) (\<lambda>(x, info).
        if info < 0 then raise (IllegalArgument (- info))
        else ret x))"

definition solve_triangular ::
  "('lu, 'ch) backend \<Rightarrow> ndarray \<Rightarrow> ndarray \<Rightarrow> bool \<Rightarrow> ndarray res" where
  "solve_triangular bk L b lower =
     (if has_zero_axis b then ret (zeros (shape b))
      else bind (call DTRTRS (dtrtrs bk L b lower)) (\<lambda>(x, info).
        if info < 0 then raise (IllegalArgument (- info))
        else if info > 0 then raise (ZeroDiagonal info)
        else ret x))"

section \<open>The numpy operations the module uses\<close>

text \<open>Fancy indexing \<^verbatim>\<open>b[idx]\<close> with an array of row numbers; a row out of range raises.\<close>

definition take_rows :: "ndarray \<Rightarrow> nat list \<Rightarrow> exc + ndarray" where
  "take_rows b idx =
     (if shape b = [] then Inl IndexError
      else if \<not> list_all (\<lambda>i. i < hd (shape b)) idx then Inl IndexError
      else Inr (NDArray (length idx # tl (shape b)) (concat (map (\<lambda>i. axis0 b ! i) idx))))"

text \<open>\<^verbatim>\<open>xy[:n]\<close> and \<^verbatim>\<open>xy[n:]\<close>\<close>

definition slice_to :: "ndarray \<Rightarrow> nat \<Rightarrow> exc + ndarray" where
  "slice_to b n =
     (if shape b = [] then Inl IndexError
      else Inr (NDArray (min n (hd (shape b)) # tl (shape b)) (concat (take n (axis0 b)))))"

definition slice_from :: "ndarray \<Rightarrow> nat \<Rightarrow> exc + ndarray" where
  "slice_from b n =
     (if shape b = [] then Inl IndexError
      else Inr (NDArray ((hd (shape b) - n) # tl (shape b)) (concat (drop n (axis0 b)))))"

text \<open>\<^verbatim>\<open>d[:, None]\<close>\<close>

definition expand_axis1 :: "ndarray \<Rightarrow> exc + ndarray" where
  "expand_axis1 d =
     (case shape d of [] \<Rightarrow> Inl IndexError | n # rest \<Rightarrow> Inr (NDArray (n # 1 # rest) (data d)))"

definition np_map :: "(real \<Rightarrow> real) \<Rightarrow> ndarray \<Rightarrow> ndarray" where
  "np_map f a = NDArray (shape a) (map f (data a))"

definition np_sqrt :: "ndarray \<Rightarrow> ndarray" where
  "np_sqrt = np_map sqrt"

definition np_log :: "ndarray \<Rightarrow> ndarray" where
  "np_log = np_map ln"

definition np_neg :: "ndarray \<Rightarrow> ndarray" where
  "np_neg = np_map uminus"

definition np_sum :: "ndarray \<Rightarrow> real" where
  "np_sum a = sum_list (data a)"

text \<open>Broadcasting: shapes are aligned from the right; an axis of length 1 is repeated.\<close>

fun bshape :: "nat list \<Rightarrow> nat list \<Rightarrow> nat list option" where
  "bshape [] ys = Some ys"
| "bshape xs [] = Some xs"
| "bshape (x # xs) (y # ys) =
     (if x = y \<or> y = 1 then map_option ((#) x) (bshape xs ys)
      else if x = 1 then map_option ((#) y) (bshape xs ys)
      else None)"

definition broadcast_shapes :: "nat list \<Rightarrow> nat list \<Rightarrow> nat list option" where
  "broadcast_shapes s1 s2 = map_option rev (bshape (rev s1) (rev s2))"

fun bdata :: "nat list \<Rightarrow> nat list \<Rightarrow> real list \<Rightarrow> real list" where
  "bdata (t # ts) (s # ss) xs =
     (if s = t then concat (map (bdata ts ss) (chunks (prod_list ss) s xs))
      else concat (replicate t (bdata ts ss xs)))"
| "bdata ts ss xs = xs"

definition broadcast_to :: "nat list \<Rightarrow> ndarray \<Rightarrow> real list" where
  "broadcast_to t a = bdata t (replicate (length t - ndim a) 1 @ shape a) (data a)"

definition np_binop :: "(real \<Rightarrow> real \<Rightarrow> real) \<Rightarrow> ndarray \<Rightarrow> ndarray \<Rightarrow> exc + ndarray" where
  "np_binop f a b =
     (case broadcast_shapes (shape a) (shape b) of
        None \<Rightarrow> Inl ShapeMismatch
      | Some t \<Rightarrow> Inr (NDArray t (map2 f (broadcast_to t a) (broadcast_to t b))))"

definition np_mul :: "ndarray \<Rightarrow> ndarray \<Rightarrow> exc + ndarray" where
  "np_mul = np_binop (*)"

definition np_add :: "ndarray \<Rightarrow> ndarray \<Rightarrow> exc + ndarray" where
  "np_add = np_binop (+)"

definition np_sub :: "ndarray \<Rightarrow> ndarray \<Rightarrow> exc + ndarray" where
  "np_sub = np_binop (-)"

text \<open>\<^verbatim>\<open>a.T\<close> reverses the axes.\<close>

fun tdata :: "nat list \<Rightarrow> real list \<Rightarrow> real list" where
  "tdata [] xs = xs"
| "tdata (s # ss) xs = concat (transpose (map (tdata ss) (chunks (prod_list ss) s xs)))"

definition np_T :: "ndarray \<Rightarrow> ndarray" where
  "np_T a = NDArray (rev (shape a)) (tdata (shape a) (data a))"

text \<open>
  \<^verbatim>\<open>a.dot(b)\<close>: a scalar operand multiplies; otherwise the last axis of \<open>a\<close> is summed
  against the only axis of a 1-D \<open>b\<close>, or against the second-to-last axis of \<open>b\<close>.
\<close>

definition inner :: "real list \<Rightarrow> real list \<Rightarrow> real" where
  "inner u v = sum_list (map2 (*) u v)"

definition columns :: "nat \<Rightarrow> nat \<Rightarrow> real list \<Rightarrow> real list list" where
  "columns k m xs = map (\<lambda>j. map (\<lambda>r. r ! j) (chunks m k xs)) [0..<m]"

definition np_dot :: "ndarray \<Rightarrow> ndarray \<Rightarrow> exc + ndarray" where
  "np_dot a b =
     (if shape a = [] \<or> shape b = [] then np_mul a b
      else
        let k = last (shape a);
            kb = (if ndim b = 1 then hd (shape b) else shape b ! (ndim b - 2));
            m = (if ndim b = 1 then 1 else last (shape b));
            pre = take (ndim b - 2) (shape b);
            rows = chunks k (prod_list (butlast (shape a))) (data a);
            slices = chunks (kb * m) (prod_list pre) (data b)
        in if k \<noteq> kb then Inl ShapeMismatch
           else Inr (NDArray
                  (butlast (shape a) @ pre @ (if ndim b = 1 then [] else [m]))
                  (concat (map (\<lambda>r. concat (map (\<lambda>sl. map (inner r) (columns kb m sl)) slices))
                     rows))))"

text \<open>\<^verbatim>\<open>np.concatenate((a, b), axis=0)\<close> and its axis-1 variant.\<close>

definition concat0 :: "ndarray \<Rightarrow> ndarray \<Rightarrow> exc + ndarray" where
  "concat0 a b =
     (if ndim a \<noteq> ndim b \<or> ndim a = 0 \<or> tl (shape a) \<noteq> tl (shape b) then Inl ShapeMismatch
      else Inr (NDArray ((hd (shape a) + hd (shape b)) # tl (shape a)) (data a @ data b)))"

definition concat1 :: "ndarray \<Rightarrow> ndarray \<Rightarrow> exc + ndarray" where
  "concat1 a b =
     (if ndim a \<noteq> ndim b \<or> ndim a < 2 \<or> hd (shape a) \<noteq> hd (shape b)
         \<or> drop 2 (shape a) \<noteq> drop 2 (shape b) then Inl ShapeMismatch
      else Inr (NDArray (hd (shape a) # (shape a ! 1 + shape b ! 1) # drop 2 (shape a))
                  (concat (map2 (@) (axis0 a) (axis0 b)))))"

definition atleast_1d :: "ndarray \<Rightarrow> ndarray" where
  "atleast_1d a = (if ndim a = 0 then NDArray [1] (data a) else a)"

definition atleast_2d :: "ndarray \<Rightarrow> ndarray" where
  "atleast_2d a =
     (if ndim a = 0 then NDArray [1, 1] (data a)
      else if ndim a = 1 then NDArray (1 # shape a) (data a)
      else a)"

definition np_hstack :: "ndarray \<Rightarrow> ndarray \<Rightarrow> exc + ndarray" where
  "np_hstack a b =
     (if ndim (atleast_1d a) = 1 then concat0 (atleast_1d a) (atleast_1d b)
      else concat1 (atleast_1d a) (atleast_1d b))"

definition np_vstack :: "ndarray \<Rightarrow> ndarray \<Rightarrow> exc + ndarray" where
  "np_vstack a b = concat0 (atleast_2d a) (atleast_2d b)"

text \<open>
  \<open>sp.hstack\<close> and \<open>sp.vstack\<close> stack two-dimensional blocks and give a sparse matrix.
\<close>

definition sp_hstack :: "ndarray \<Rightarrow> ndarray \<Rightarrow> exc + ndarray" where
  "sp_hstack a b = (if ndim a \<noteq> 2 \<or> ndim b \<noteq> 2 then Inl ShapeMismatch else concat1 a b)"

definition sp_vstack :: "ndarray \<Rightarrow> ndarray \<Rightarrow> exc + ndarray" where
  "sp_vstack a b = (if ndim a \<noteq> 2 \<or> ndim b \<noteq> 2 then Inl ShapeMismatch else concat0 a b)"

text \<open>
  \<open>np.argsort(p)\<close>: the positions of the entries of \<open>p\<close> in increasing order (for distinct
  entries, as in a permutation, there is one such order).
\<close>

definition argsort :: "nat list \<Rightarrow> nat list" where
  "argsort p = map snd (sort_key fst (zip p [0..<length p]))"

text \<open>
  \<open>np.diag\<close>: the main diagonal of a 2-D array; the diagonal matrix of a 1-D array.
\<close>

definition np_diag :: "ndarray \<Rightarrow> exc + ndarray" where
  "np_diag a =
     (case shape a of
        [n, m] \<Rightarrow> Inr (NDArray [min n m] (map (\<lambda>i. data a ! (i * m + i)) [0..<min n m]))
      | [n] \<Rightarrow> Inr (NDArray [n, n]
                 (concat (map (\<lambda>i. map (\<lambda>j. if i = j then data a ! i else 0) [0..<n]) [0..<n])))
      | _ \<Rightarrow> Inl ShapeMismatch)"

definition lift :: "exc + 'a \<Rightarrow> 'a res" where
  "lift r = (r, [])"

section \<open>Solver\<close>

datatype 'lu solver = SparseSolver 'lu | DenseSolver ndarray "int list"

definition SparseSolver_init :: "('lu, 'ch) backend \<Rightarrow> ndarray \<Rightarrow> 'lu solver res" where
  "SparseSolver_init bk A = bind (call SPILU (spilu bk A)) (\<lambda>factor. ret (SparseSolver factor))"

definition DenseSolver_init :: "('lu, 'ch) backend \<Rightarrow> ndarray \<Rightarrow> 'lu solver res" where
  "DenseSolver_init bk A = bind (lu bk A) (\<lambda>(fac, piv). ret (DenseSolver fac piv))"

definition Solver_init :: "('lu, 'ch) backend \<Rightarrow> matrix \<Rightarrow> 'lu solver res" where
  "Solver_init bk A0 =
     (let A = as_sparse_or_array A0
      in if issparse A then SparseSolver_init bk (toarray A)
         else DenseSolver_init bk (toarray A))"

definition Solver_solve :: "('lu, 'ch) backend \<Rightarrow> 'lu solver \<Rightarrow> matrix \<Rightarrow> ndarray res" where
  "Solver_solve bk s b0 =
     (let b = as_array b0
      in case s of
           SparseSolver factor \<Rightarrow> call SUPERLU_SOLVE (superlu_solve bk factor b)
         | DenseSolver fac piv \<Rightarrow> solve_lu bk fac piv b)"

section \<open>PosDefSolver\<close>

datatype 'ch posdef_solver =
    SparsePosDefSolver (factor: 'ch) (d: ndarray) (p: "nat list")
  | DensePosDefSolver (chol: ndarray)

definition SparsePosDefSolver_init ::
  "('lu, 'ch) backend \<Rightarrow> ndarray \<Rightarrow> 'ch posdef_solver res" where
  "SparsePosDefSolver_init bk A =
     bind (call CHOLMOD_CHOLESKY (cholmod_cholesky bk A)) (\<lambda>f.
     bind (call CHOLMOD_D (factor_D bk f)) (\<lambda>dd.
     bind (call CHOLMOD_P (factor_P bk f)) (\<lambda>pp.
     ret (SparsePosDefSolver f dd pp))))"

definition SparsePosDefSolver_solve ::
  "('lu, 'ch) backend \<Rightarrow> 'ch \<Rightarrow> ndarray \<Rightarrow> ndarray res" where
  "SparsePosDefSolver_solve bk f b = call CHOLMOD_SOLVE_A (factor_solve_A bk f b)"

text \<open>
  \<open>np.sqrt\<close> and the division are taken on the reals, which is what they compute, up to
  rounding, when every entry of \<open>d\<close> is positive. For an entry that is zero or negative numpy
  gives \<open>inf\<close> or \<open>nan\<close> with a RuntimeWarning and goes on with them: there the model
  ends with \<open>NonFiniteResult\<close>, after the same checks and the same backend call as the code
  (an exception of the code is the model's outcome too), and says nothing about the array
  the code returns.
\<close>

definition positive_entries :: "ndarray \<Rightarrow> bool" where
  "positive_entries a = list_all (\<lambda>x. 0 < x) (data a)"

definition SparsePosDefSolver_solve_L ::
  "('lu, 'ch) backend \<Rightarrow> 'ch \<Rightarrow> ndarray \<Rightarrow> nat list \<Rightarrow> ndarray \<Rightarrow> ndarray res" where
  "SparsePosDefSolver_solve_L bk f dd pp b =
     bind (if ndim b = 1 then ret (np_map (\<lambda>x. 1 / x) (np_sqrt dd))
           else if ndim b = 2 then lift (expand_axis1 (np_map (\<lambda>x. 1 / x) (np_sqrt dd)))
           else raise BadRhsDimension) (\<lambda>s_inv.
     bind (lift (take_rows b pp)) (\<lambda>bp.
     bind (call CHOLMOD_SOLVE_L (factor_solve_L bk f bp)) (\<lambda>y.
     bind (lift (np_mul s_inv y)) (\<lambda>out.
     if positive_entries dd then ret out else raise NonFiniteResult))))"

definition SparsePosDefSolver_L ::
  "('lu, 'ch) backend \<Rightarrow> 'ch \<Rightarrow> nat list \<Rightarrow> matrix res" where
  "SparsePosDefSolver_L bk f pp =
     bind (call CHOLMOD_L (factor_L bk f)) (\<lambda>L.
     let p_inv = argsort pp
     in bind (lift (take_rows L p_inv)) (\<lambda>out. ret (Sparse out)))"

definition SparsePosDefSolver_log_det :: "ndarray \<Rightarrow> real res" where
  "SparsePosDefSolver_log_det dd = ret (np_sum (np_log dd))"

definition DensePosDefSolver_init ::
  "('lu, 'ch) backend \<Rightarrow> ndarray \<Rightarrow> 'ch posdef_solver res" where
  "DensePosDefSolver_init bk A = bind (cholesky bk A True) (\<lambda>c. ret (DensePosDefSolver c))"

definition DensePosDefSolver_solve ::
  "('lu, 'ch) backend \<Rightarrow> ndarray \<Rightarrow> ndarray \<Rightarrow> ndarray res" where
  "DensePosDefSolver_solve bk c b = solve_cholesky bk c b True"

definition DensePosDefSolver_solve_L ::
  "('lu, 'ch) backend \<Rightarrow> ndarray \<Rightarrow> ndarray \<Rightarrow> ndarray res" where
  "DensePosDefSolver_solve_L bk c b = solve_triangular bk c b True"

definition DensePosDefSolver_L :: "ndarray \<Rightarrow> matrix res" where
  "DensePosDefSolver_L c = ret (Dense c)"

definition DensePosDefSolver_log_det :: "ndarray \<Rightarrow> real res" where
  "DensePosDefSolver_log_det c = bind (lift (np_diag c)) (\<lambda>dg. ret (2 * np_sum (np_log dg)))"

definition CHOLMOD_MSG :: string where
  "CHOLMOD_MSG =
     ''Could not import CHOLMOD. Sparse matrices will be converted to '' @
     ''dense for all Cholesky decompositions. To install CHOLMOD and its '' @
     ''python wrapper, follow the instructions at '' @
     ''https://scikit-sparse.readthedocs.io. Anaconda users can install '' @
     ''CHOLMOD with the command `conda install -c conda-forge '' @
     ''scikit-sparse`''"

text \<open>
  \<open>HAS_CHOLMOD\<close> is set once, when the module is imported; it is a parameter here.
  \<open>warnings.warn\<close> records the warning and goes on.
\<close>

definition PosDefSolver_init ::
  "bool \<Rightarrow> ('lu, 'ch) backend \<Rightarrow> matrix \<Rightarrow> 'ch posdef_solver res" where
  "PosDefSolver_init HAS_CHOLMOD bk A0 =
     bind (let A = as_sparse_or_array A0
           in if issparse A \<and> \<not> HAS_CHOLMOD
              then bind (warn CHOLMOD_MSG) (\<lambda>_. ret (Dense (toarray A)))
              else ret A) (\<lambda>A.
     if issparse A then SparsePosDefSolver_init bk (toarray A)
     else DensePosDefSolver_init bk (toarray A))"

definition PosDefSolver_solve ::
  "('lu, 'ch) backend \<Rightarrow> 'ch posdef_solver \<Rightarrow> matrix \<Rightarrow> ndarray res" where
  "PosDefSolver_solve bk s b0 =
     (let b = as_array b0
      in case s of
           SparsePosDefSolver f dd pp \<Rightarrow> SparsePosDefSolver_solve bk f b
         | DensePosDefSolver c \<Rightarrow> DensePosDefSolver_solve bk c b)"

definition PosDefSolver_solve_L ::
  "('lu, 'ch) backend \<Rightarrow> 'ch posdef_solver \<Rightarrow> matrix \<Rightarrow> ndarray res" where
  "PosDefSolver_solve_L bk s b0 =
     (let b = as_array b0
      in case s of
           SparsePosDefSolver f dd pp \<Rightarrow> SparsePosDefSolver_solve_L bk f dd pp b
         | DensePosDefSolver c \<Rightarrow> DensePosDefSolver_solve_L bk c b)"

definition PosDefSolver_L :: "('lu, 'ch) backend \<Rightarrow> 'ch posdef_solver \<Rightarrow> matrix res" where
  "PosDefSolver_L bk s =
     (case s of
        SparsePosDefSolver f dd pp \<Rightarrow> SparsePosDefSolver_L bk f pp
      | DensePosDefSolver c \<Rightarrow> DensePosDefSolver_L c)"

definition PosDefSolver_log_det :: "'ch posdef_solver \<Rightarrow> real res" where
  "PosDefSolver_log_det s =
     (case s of
        SparsePosDefSolver f dd pp \<Rightarrow> SparsePosDefSolver_log_det dd
      | DensePosDefSolver c \<Rightarrow> DensePosDefSolver_log_det c)"

section \<open>is_positive_definite\<close>

text \<open>
  The \<open>except\<close> clause names \<open>cholmod.CholmodNotPositiveDefiniteError\<close>. Python evaluates
  that expression when an exception reaches the clause, and the name \<open>cholmod\<close> is bound
  only when the import at the top of the module succeeded.
\<close>

definition is_positive_definite ::
  "bool \<Rightarrow> ('lu, 'ch) backend \<Rightarrow> matrix \<Rightarrow> bool res" where
  "is_positive_definite HAS_CHOLMOD bk A =
     (case bind (PosDefSolver_init HAS_CHOLMOD bk A) (PosDefSolver_L bk) of
        (Inr _, t) \<Rightarrow> (Inr True, t)
      | (Inl e, t) \<Rightarrow>
          if \<not> HAS_CHOLMOD then (Inl (NameError ''cholmod''), t)
          else if class_of e = LinAlgError \<or> class_of e = CholmodNotPositiveDefiniteErrorClass
          then (Inr False, t)
          else (Inl e, t))"

section \<open>PartitionedSolver\<close>

text \<open>\<^verbatim>\<open>n, p = B.shape\<close> raises a ValueError unless \<open>B\<close> has two axes.\<close>

definition unpack2 :: "nat list \<Rightarrow> (nat \<times> nat) res" where
  "unpack2 s = (case s of [n, q] \<Rightarrow> ret (n, q) | _ \<Rightarrow> raise ShapeMismatch)"

datatype 'lu partitioned_solver = PartitionedSolver "'lu solver" nat

definition PartitionedSolver_init ::
  "('lu, 'ch) backend \<Rightarrow> matrix \<Rightarrow> matrix \<Rightarrow> 'lu partitioned_solver res" where
  "PartitionedSolver_init bk A0 B0 =
     (let A = as_sparse_or_array A0; B = as_array B0
      in bind (unpack2 (shape B)) (\<lambda>(n, q).
         if n < q then raise BlockSingular
         else
           bind (if issparse A
                 then (let Z = zeros [q, q]
                       in bind (lift (sp_hstack (toarray A) B)) (\<lambda>top.
                          bind (lift (sp_hstack (np_T B) Z)) (\<lambda>bot.
                          bind (lift (sp_vstack top bot)) (\<lambda>C. ret (Sparse C)))))
                 else (let Z = zeros [q, q]
                       in bind (lift (np_hstack (toarray A) B)) (\<lambda>top.
                          bind (lift (np_hstack (np_T B) Z)) (\<lambda>bot.
                          bind (lift (np_vstack top bot)) (\<lambda>C. ret (Dense C)))))) (\<lambda>C.
           bind (Solver_init bk C) (\<lambda>s. ret (PartitionedSolver s n)))))"

definition PartitionedSolver_solve ::
  "('lu, 'ch) backend \<Rightarrow> 'lu partitioned_solver \<Rightarrow> matrix \<Rightarrow> matrix
     \<Rightarrow> (ndarray \<times> ndarray) res" where
  "PartitionedSolver_solve bk ps a0 b0 =
     (case ps of PartitionedSolver s n \<Rightarrow>
        let a = as_array a0; b = as_array b0
        in bind (lift (concat0 a b)) (\<lambda>c.
           bind (Solver_solve bk s (Dense c)) (\<lambda>xy.
           bind (lift (slice_to xy n)) (\<lambda>x.
           bind (lift (slice_from xy n)) (\<lambda>y. ret (x, y))))))"

section \<open>PartitionedPosDefSolver\<close>

datatype 'ch partitioned_posdef_solver =
  PartitionedPosDefSolver (AiB: ndarray) (A_solver: "'ch posdef_solver")
    (BtAiB_solver: "'ch posdef_solver")

definition PartitionedPosDefSolver_init ::
  "bool \<Rightarrow> ('lu, 'ch) backend \<Rightarrow> matrix \<Rightarrow> matrix \<Rightarrow> 'ch partitioned_posdef_solver res" where
  "PartitionedPosDefSolver_init HAS_CHOLMOD bk A0 B0 =
     (let A = as_sparse_or_array A0; B = as_array B0
      in bind (unpack2 (shape B)) (\<lambda>(n, q).
         if n < q then raise BlockSingular
         else
           bind (PosDefSolver_init HAS_CHOLMOD bk A) (\<lambda>As.
           bind (PosDefSolver_solve bk As (Dense B)) (\<lambda>X.
           bind (lift (np_dot (np_T B) X)) (\<lambda>S.
           bind (PosDefSolver_init HAS_CHOLMOD bk (Dense S)) (\<lambda>Ss.
           ret (PartitionedPosDefSolver X As Ss)))))))"

definition PartitionedPosDefSolver_solve ::
  "('lu, 'ch) backend \<Rightarrow> 'ch partitioned_posdef_solver \<Rightarrow> matrix \<Rightarrow> matrix
     \<Rightarrow> (ndarray \<times> ndarray) res" where
  "PartitionedPosDefSolver_solve bk ps a0 b0 =
     (case ps of PartitionedPosDefSolver X As Ss \<Rightarrow>
        let a = as_array a0; b = as_array b0
        in bind (PosDefSolver_solve bk Ss (Dense b)) (\<lambda>r1.
           let Eb = np_neg r1
           in bind (lift (np_dot X Eb)) (\<lambda>r2.
           let Db = np_neg r2
           in bind (lift (np_dot (np_T X) a)) (\<lambda>r3.
           bind (PosDefSolver_solve bk Ss (Dense r3)) (\<lambda>Dta.
           bind (PosDefSolver_solve bk As (Dense a)) (\<lambda>r4.
           bind (lift (np_dot X Dta)) (\<lambda>r5.
           bind (lift (np_sub r4 r5)) (\<lambda>Ca.
           bind (lift (np_add Ca Db)) (\<lambda>x.
           bind (lift (np_add Dta Eb)) (\<lambda>y. ret (x, y)))))))))))"

section \<open>Recorded backend responses\<close>

text \<open>
  To run the model on a concrete input, the external routines are replaced by tables of
  their responses on the arrays that input leads to. \<open>no_backend\<close> answers nothing;
  \<open>saddle_backend\<close> holds the responses for the block system with \<open>A\<close> the 3 by 3
  identity and \<open>B\<close> the column of ones.
\<close>

definition recorded :: "('a \<times> 'b) list \<Rightarrow> 'a \<Rightarrow> backend_exc + 'b" where
  "recorded tab x = (case map_of tab x of Some y \<Rightarrow> Inr y | None \<Rightarrow> Inl (BackendFailure 0))"

definition no_backend :: "(nat, nat) backend" where
  "no_backend = \<lparr>
     dgetrf = (\<lambda>A. Inl (BackendFailure 0)),
     dgetrs = (\<lambda>fac piv b. Inl (BackendFailure 0)),
     dpotrf = (\<lambda>A lower. Inl (BackendFailure 0)),
     dpotrs = (\<lambda>L b lower. Inl (BackendFailure 0)),
     dtrtrs = (\<lambda>L b lower. Inl (BackendFailure 0)),
     spilu = (\<lambda>A. Inl (BackendFailure 0)),
     superlu_solve = (\<lambda>f b. Inl (BackendFailure 0)),
     cholmod_cholesky = (\<lambda>A. Inl (BackendFailure 0)),
     factor_D = (\<lambda>f. Inl (BackendFailure 0)),
     factor_P = (\<lambda>f. Inl (BackendFailure 0)),
     factor_solve_A = (\<lambda>f b. Inl (BackendFailure 0)),
     factor_solve_L = (\<lambda>f b. Inl (BackendFailure 0)),
     factor_L = (\<lambda>f. Inl (BackendFailure 0)) \<rparr>"

definition I3 :: ndarray where
  "I3 = NDArray [3, 3] [1, 0, 0, 0, 1, 0, 0, 0, 1]"

definition ones31 :: ndarray where
  "ones31 = NDArray [3, 1] [1, 1, 1]"

definition saddle_backend :: "(nat, nat) backend" where
  "saddle_backend = no_backend \<lparr>
     dgetrf := recorded
       [(NDArray [4, 4] [1, 0, 0, 1, 0, 1, 0, 1, 0, 0, 1, 1, 1, 1, 1, 0],
         (NDArray [4, 4] [1, 0, 0, 1, 0, 1, 0, 1, 0, 0, 1, 1, 1, 1, 1, - 3], [0, 1, 2, 3], 0))],
     dpotrf := (\<lambda>A lower. recorded
       [(I3, (I3, 0)), (NDArray [1, 1] [3], (NDArray [1, 1] [sqrt 3], 0))] A),
     dpotrs := (\<lambda>L b lower. recorded [((I3, ones31), (ones31, 0))] (L, b)),
     dtrtrs := (\<lambda>L b lower. recorded [((I3, ones31), (ones31, 0))] (L, b)) \<rparr>"

definition wide12 :: ndarray where
  "wide12 = NDArray [1, 2] [1, 1]"

text \<open>
  \<open>indefinite_backend\<close>: what \<open>dpotrf\<close> answers on the 1 by 1 matrix \<open>[[-1]]\<close>
  (\<open>info = 1\<close>: the leading minor of order 1 is not positive definite).
  \<open>empty_sparse_backend\<close>: a SuperLU and a CHOLMOD that accept the empty matrix.
\<close>

definition minus11 :: ndarray where
  "minus11 = NDArray [1, 1] [- 1]"

definition indefinite_backend :: "(nat, nat) backend" where
  "indefinite_backend = no_backend \<lparr>
     dpotrf := (\<lambda>A lower. recorded [(minus11, (minus11, 1))] A) \<rparr>"

definition empty_sparse_backend :: "(nat, nat) backend" where
  "empty_sparse_backend = no_backend \<lparr>
     spilu := recorded [(NDArray [0, 0] [], 0)],
     superlu_solve := (\<lambda>f b. recorded [((0, NDArray [0] []), NDArray [0] [])] (f, b)),
     cholmod_cholesky := recorded [(NDArray [0, 0] [], 0)],
     factor_D := recorded [(0, NDArray [0] [])],
     factor_P := recorded [(0, [])],
     factor_solve_A := (\<lambda>f b. recorded [((0, NDArray [0] []), NDArray [0] [])] (f, b)) \<rparr>"

text \<open>
  \<open>cholmod_backend\<close>: CHOLMOD's answers for the matrix \<open>[[2, 2], [2, 4]]\<close>, factored in the
  order \<open>P = [1, 0]\<close> as \<open>[[4, 2], [2, 2]] = L diag(4, 1) L\<^sup>T\<close> with \<open>L = [[1, 0], [1/2, 1]]\<close>;
  \<open>factor.L()\<close> is \<open>[[2, 0], [1, 1]]\<close>.
\<close>

definition A22 :: ndarray where
  "A22 = NDArray [2, 2] [2, 2, 2, 4]"

definition b22 :: ndarray where
  "b22 = NDArray [2, 2] [1, 2, 3, 4]"

definition cholmod_backend :: "(nat, nat) backend" where
  "cholmod_backend = no_backend \<lparr>
     cholmod_cholesky := recorded [(A22, 0)],
     factor_D := recorded [(0, NDArray [2] [4, 1])],
     factor_P := recorded [(0, [1, 0])],
     factor_solve_L := (\<lambda>f b. recorded
       [((0, NDArray [2, 2] [3, 4, 1, 2]), NDArray [2, 2] [3, 4, - 1 / 2, 0]),
        ((0, NDArray [2] [3, 1]), NDArray [2] [3, - 1 / 2])] (f, b)),
     factor_L := recorded [(0, NDArray [2, 2] [2, 0, 1, 1])] \<rparr>"

section \<open>The specification's row scaling\<close>


section \<open>Reconstruction of a matrix from a factor\<close>

text \<open>
  Written from the specification's words. \<open>gram_entry M i j\<close> is the entry \<open>(i, j)\<close> of
  \<open>M\<close> times its own transpose; \<open>reconstructs eps M A\<close> says that every entry of that product
  is within \<open>eps\<close> of the entry of \<open>A\<close>, and \<open>reconstructs_permuted\<close> says the same of the
  matrix \<open>A\<close> taken in the order \<open>pp\<close> of rows and columns (\<open>P A P\<^sup>T\<close>). \<open>is_permutation pp n\<close>:
  \<open>pp\<close> is a permutation of \<open>0, ..., n - 1\<close>.
\<close>

definition row :: "ndarray \<Rightarrow> nat \<Rightarrow> real list" where
  "row M i = axis0 M ! i"

definition entry :: "ndarray \<Rightarrow> nat \<Rightarrow> nat \<Rightarrow> real" where
  "entry M i j = data M ! (i * (shape M ! 1) + j)"

definition gram_entry :: "ndarray \<Rightarrow> nat \<Rightarrow> nat \<Rightarrow> real" where
  "gram_entry M i j = inner (row M i) (row M j)"

definition reconstructs :: "real \<Rightarrow> ndarray \<Rightarrow> ndarray \<Rightarrow> bool" where
  "reconstructs eps M A =
     (let n = hd (shape A)
      in list_all (\<lambda>i. list_all (\<lambda>j. \<bar>gram_entry M i j - entry A i j\<bar> \<le> eps) [0..<n])
           [0..<n])"

definition reconstructs_permuted :: "real \<Rightarrow> ndarray \<Rightarrow> ndarray \<Rightarrow> nat list \<Rightarrow> bool" where
  "reconstructs_permuted eps L A pp =
     (let n = hd (shape A)
      in list_all (\<lambda>i. list_all (\<lambda>j. \<bar>gram_entry L i j - entry A (pp ! i) (pp ! j)\<bar> \<le> eps)
           [0..<n]) [0..<n])"

definition is_permutation :: "nat list \<Rightarrow> nat \<Rightarrow> bool" where
  "is_permutation pp n = (sort pp = [0..<n])"

section \<open>The lower triangle\<close>

text \<open>
  \<open>wf\<close>: the array has as many entries as its shape says. \<open>tril\<close>: the lower triangle of a
  matrix, diagonal included, zero above. \<open>reads_lower_only\<close> is LAPACK's contract for
  \<open>dpotrf\<close> called with \<open>lower\<close> set: the strictly upper triangle is not referenced.
  \<open>lower_backend\<close> is a \<open>dpotrf\<close> that looks its answer up by the lower triangle.
\<close>

definition wf :: "ndarray \<Rightarrow> bool" where
  "wf a = (length (data a) = prod_list (shape a))"

definition tril :: "ndarray \<Rightarrow> ndarray" where
  "tril a =
     (case shape a of
        [n, m] \<Rightarrow> NDArray [n, m]
                   (map (\<lambda>k. if k mod m \<le> k div m then data a ! k else 0) [0..<n * m])
      | _ \<Rightarrow> a)"

definition reads_lower_only :: "(ndarray \<Rightarrow> bool \<Rightarrow> backend_exc + (ndarray \<times> int)) \<Rightarrow> bool" where
  "reads_lower_only potrf =
     (\<forall>X Y. wf X \<and> wf Y \<and> shape X = shape Y \<and> tril X = tril Y
        \<longrightarrow> potrf X True = potrf Y True)"

definition A45 :: ndarray where
  "A45 = NDArray [2, 2] [4, 2, 2, 5]"

definition A45_upper :: ndarray where
  "A45_upper = NDArray [2, 2] [4, 7, 2, 5]"

definition lower_backend :: "(nat, nat) backend" where
  "lower_backend = no_backend \<lparr>
     dpotrf := (\<lambda>X lower. recorded
       [(NDArray [2, 2] [4, 0, 2, 5], (NDArray [2, 2] [2, 0, 1, 2], 0))] (tril X)) \<rparr>"

section \<open>Solving with a factor\<close>



definition Lunit22 :: ndarray where
  "Lunit22 = NDArray [2, 2] [1, 0, 1 / 2, 1]"

section \<open>The module on arrays in memory\<close>

text \<open>
  To say what a call does to the caller's arrays, the array objects live in a heap: \<open>objs\<close>
  gives the object at an address and \<open>top\<close> is the next free address. A program takes the
  heap and returns its value, or the exception it raised, and the heap it leaves.
  \<open>as_sparse_or_array\<close> and \<open>as_array\<close> are called with \<open>copy=False\<close>: for an array of
  doubles (a csc matrix) they return the caller's object itself, and that address is what each
  LAPACK wrapper hands to its routine. Every numpy operation of the module (\<open>zeros\<close>,
  \<open>hstack\<close>, \<open>vstack\<close>, \<open>concatenate\<close>, \<open>dot\<close>, \<open>-\<close>, \<open>+\<close>, \<open>*\<close>, indexing by an array)
  returns a new object; a view (\<open>.T\<close>, a slice) is a new object too, and nothing is ever
  stored through one. The module has no assignment into an array.

  The external routines take addresses and may do anything to the heap. The f2py wrappers
  have a flag \<open>overwrite_a\<close> or \<open>overwrite_b\<close>; the module never passes it, so it has its
  default, false. \<open>extends h h'\<close>: every object of \<open>h\<close> is still at its address in \<open>h'\<close>,
  unchanged. \<open>keeps_inputs\<close> is the routines' contract: called without the overwrite flag,
  they leave every existing object as it is. \<open>frame m\<close>: the program \<open>m\<close> does so from every
  heap.
\<close>

type_synonym addr = nat

record heap =
  objs :: "addr \<Rightarrow> matrix"
  top :: nat

type_synonym 'a prog = "heap \<Rightarrow> (exc + 'a) \<times> heap"

definition ret_m :: "'a \<Rightarrow> 'a prog" where
  "ret_m x = (\<lambda>h. (Inr x, h))"

definition raise_m :: "exc \<Rightarrow> 'a prog" where
  "raise_m e = (\<lambda>h. (Inl e, h))"

definition bind_m :: "'a prog \<Rightarrow> ('a \<Rightarrow> 'b prog) \<Rightarrow> 'b prog" where
  "bind_m m f = (\<lambda>h. case m h of (Inl e, h') \<Rightarrow> (Inl e, h') | (Inr x, h') \<Rightarrow> f x h')"

definition new :: "matrix \<Rightarrow> addr prog" where
  "new v = (\<lambda>h. (Inr (top h), h\<lparr>objs := (objs h)(top h := v), top := Suc (top h)\<rparr>))"

definition look :: "addr \<Rightarrow> matrix prog" where
  "look a = (\<lambda>h. (Inr (objs h a), h))"

definition fresh_array :: "exc + ndarray \<Rightarrow> addr prog" where
  "fresh_array r = (case r of Inl e \<Rightarrow> raise_m e | Inr v \<Rightarrow> new (Dense v))"

definition ext :: "(heap \<Rightarrow> (backend_exc + 'a) \<times> heap) \<Rightarrow> 'a prog" where
  "ext r = (\<lambda>h. case r h of (Inl e, h') \<Rightarrow> (Inl (Backend e), h') | (Inr v, h') \<Rightarrow> (Inr v, h'))"

definition extends :: "heap \<Rightarrow> heap \<Rightarrow> bool" where
  "extends h h' = (top h \<le> top h' \<and> list_all (\<lambda>a. objs h' a = objs h a) [0..<top h])"

record ('lu, 'ch) backend_m =
  dgetrf_m :: "addr \<Rightarrow> bool \<Rightarrow> heap \<Rightarrow> (backend_exc + (addr \<times> int list \<times> int)) \<times> heap"
  dgetrs_m :: "addr \<Rightarrow> int list \<Rightarrow> addr \<Rightarrow> bool \<Rightarrow> heap \<Rightarrow> (backend_exc + (addr \<times> int)) \<times> heap"
  dpotrf_m :: "addr \<Rightarrow> bool \<Rightarrow> bool \<Rightarrow> heap \<Rightarrow> (backend_exc + (addr \<times> int)) \<times> heap"
  dpotrs_m :: "addr \<Rightarrow> addr \<Rightarrow> bool \<Rightarrow> bool \<Rightarrow> heap \<Rightarrow> (backend_exc + (addr \<times> int)) \<times> heap"
  dtrtrs_m :: "addr \<Rightarrow> addr \<Rightarrow> bool \<Rightarrow> bool \<Rightarrow> heap \<Rightarrow> (backend_exc + (addr \<times> int)) \<times> heap"
  spilu_m :: "addr \<Rightarrow> heap \<Rightarrow> (backend_exc + 'lu) \<times> heap"
  superlu_solve_m :: "'lu \<Rightarrow> addr \<Rightarrow> heap \<Rightarrow> (backend_exc + addr) \<times> heap"
  cholmod_cholesky_m :: "addr \<Rightarrow> heap \<Rightarrow> (backend_exc + 'ch) \<times> heap"
  factor_D_m :: "'ch \<Rightarrow> heap \<Rightarrow> (backend_exc + addr) \<times> heap"
  factor_P_m :: "'ch \<Rightarrow> heap \<Rightarrow> (backend_exc + nat list) \<times> heap"
  factor_solve_A_m :: "'ch \<Rightarrow> addr \<Rightarrow> heap \<Rightarrow> (backend_exc + addr) \<times> heap"
  factor_solve_L_m :: "'ch \<Rightarrow> addr \<Rightarrow> heap \<Rightarrow> (backend_exc + addr) \<times> heap"
  factor_L_m :: "'ch \<Rightarrow> heap \<Rightarrow> (backend_exc + addr) \<times> heap"

definition keeps_inputs :: "('lu, 'ch) backend_m \<Rightarrow> bool" where
  "keeps_inputs bk =
     ((\<forall>a h. extends h (snd (dgetrf_m bk a False h)))
    \<and> (\<forall>fac piv b h. extends h (snd (dgetrs_m bk fac piv b False h)))
    \<and> (\<forall>a lower h. extends h (snd (dpotrf_m bk a lower False h)))
    \<and> (\<forall>c b lower h. extends h (snd (dpotrs_m bk c b lower False h)))
    \<and> (\<forall>c b lower h. extends h (snd (dtrtrs_m bk c b lower False h)))
    \<and> (\<forall>a h. extends h (snd (spilu_m bk a h)))
    \<and> (\<forall>f b h. extends h (snd (superlu_solve_m bk f b h)))
    \<and> (\<forall>a h. extends h (snd (cholmod_cholesky_m bk a h)))
    \<and> (\<forall>f h. extends h (snd (factor_D_m bk f h)))
    \<and> (\<forall>f h. extends h (snd (factor_P_m bk f h)))
    \<and> (\<forall>f b h. extends h (snd (factor_solve_A_m bk f b h)))
    \<and> (\<forall>f b h. extends h (snd (factor_solve_L_m bk f b h)))
    \<and> (\<forall>f h. extends h (snd (factor_L_m bk f h))))"

definition as_sparse_or_array_m :: "addr \<Rightarrow> addr prog" where
  "as_sparse_or_array_m a = ret_m a"

definition as_array_m :: "addr \<Rightarrow> addr prog" where
  "as_array_m a =
     bind_m (look a) (\<lambda>A. if issparse A then new (Dense (toarray A)) else ret_m a)"

definition lu_m :: "('lu, 'ch) backend_m \<Rightarrow> addr \<Rightarrow> (addr \<times> int list) prog" where
  "lu_m bk a =
     bind_m (look a) (\<lambda>A.
       if shape (toarray A) = [0, 0]
       then bind_m (new (Dense (zeros [0, 0]))) (\<lambda>fac. ret_m (fac, []))
       else bind_m (ext (dgetrf_m bk a False)) (\<lambda>(fac, piv, info).
         if info < 0 then raise_m (IllegalArgument (- info))
         else if info > 0 then raise_m (ExactlySingularU info)
         else ret_m (fac, piv)))"

definition solve_lu_m ::
  "('lu, 'ch) backend_m \<Rightarrow> addr \<Rightarrow> int list \<Rightarrow> addr \<Rightarrow> addr prog" where
  "solve_lu_m bk fac piv b =
     bind_m (look b) (\<lambda>B.
       if has_zero_axis (toarray B) then new (Dense (zeros (shape (toarray B))))
       else bind_m (ext (dgetrs_m bk fac piv b False)) (\<lambda>(x, info).
         if info \<noteq> 0 then raise_m (IllegalArgument (- info))
         else ret_m x))"

definition cholesky_m :: "('lu, 'ch) backend_m \<Rightarrow> addr \<Rightarrow> bool \<Rightarrow> addr prog" where
  "cholesky_m bk a lower =
     bind_m (look a) (\<lambda>A.
       if shape (toarray A) = [0, 0] then new (Dense (zeros [0, 0]))
       else bind_m (ext (dpotrf_m bk a lower False)) (\<lambda>(L, info).
         if info > 0 then raise_m (NotPosDefMinor info)
         else if info < 0 then raise_m (IllegalArgument (- info))
         else ret_m L))"

definition solve_cholesky_m ::
  "('lu, 'ch) backend_m \<Rightarrow> addr \<Rightarrow> addr \<Rightarrow> bool \<Rightarrow> addr prog" where
  "solve_cholesky_m bk L b lower =
     bind_m (look b) (\<lambda>B.
       if has_zero_axis (toarray B) then new (Dense (zeros (shape (toarray B))))
       else bind_m (ext (dpotrs_m bk L b lower False)) (\<lambda>(x, info).
         if info < 0 then raise_m (IllegalArgument (- info))
         else ret_m x))"

definition solve_triangular_m ::
  "('lu, 'ch) backend_m \<Rightarrow> addr \<Rightarrow> addr \<Rightarrow> bool \<Rightarrow> addr prog" where
  "solve_triangular_m bk L b lower =
     bind_m (look b) (\<lambda>B.
       if has_zero_axis (toarray B) then new (Dense (zeros (shape (toarray B))))
       else bind_m (ext (dtrtrs_m bk L b lower False)) (\<lambda>(x, info).
         if info < 0 then raise_m (IllegalArgument (- info))
         else if info > 0 then raise_m (ZeroDiagonal info)
         else ret_m x))"

datatype 'lu solver_m = SparseSolver_m 'lu | DenseSolver_m addr "int list"

definition Solver_init_m :: "('lu, 'ch) backend_m \<Rightarrow> addr \<Rightarrow> 'lu solver_m prog" where
  "Solver_init_m bk a0 =
     bind_m (as_sparse_or_array_m a0) (\<lambda>a.
     bind_m (look a) (\<lambda>A.
       if issparse A then bind_m (ext (spilu_m bk a)) (\<lambda>f. ret_m (SparseSolver_m f))
       else bind_m (lu_m bk a) (\<lambda>(fac, piv). ret_m (DenseSolver_m fac piv))))"

definition Solver_solve_m ::
  "('lu, 'ch) backend_m \<Rightarrow> 'lu solver_m \<Rightarrow> addr \<Rightarrow> addr prog" where
  "Solver_solve_m bk s b0 =
     bind_m (as_array_m b0) (\<lambda>b.
       case s of
         SparseSolver_m f \<Rightarrow> ext (superlu_solve_m bk f b)
       | DenseSolver_m fac piv \<Rightarrow> solve_lu_m bk fac piv b)"

datatype 'ch posdef_solver_m =
    SparsePosDefSolver_m 'ch addr "nat list"
  | DensePosDefSolver_m addr

definition SparsePosDefSolver_init_m ::
  "('lu, 'ch) backend_m \<Rightarrow> addr \<Rightarrow> 'ch posdef_solver_m prog" where
  "SparsePosDefSolver_init_m bk a =
     bind_m (ext (cholmod_cholesky_m bk a)) (\<lambda>f.
     bind_m (ext (factor_D_m bk f)) (\<lambda>dd.
     bind_m (ext (factor_P_m bk f)) (\<lambda>pp.
     ret_m (SparsePosDefSolver_m f dd pp))))"

definition SparsePosDefSolver_solve_L_m ::
  "('lu, 'ch) backend_m \<Rightarrow> 'ch \<Rightarrow> addr \<Rightarrow> nat list \<Rightarrow> addr \<Rightarrow> addr prog" where
  "SparsePosDefSolver_solve_L_m bk f dd pp b =
     bind_m (look b) (\<lambda>B.
     bind_m (look dd) (\<lambda>D.
     bind_m (if ndim (toarray B) = 1
             then fresh_array (Inr (np_map (\<lambda>x. 1 / x) (np_sqrt (toarray D))))
             else if ndim (toarray B) = 2
             then fresh_array (expand_axis1 (np_map (\<lambda>x. 1 / x) (np_sqrt (toarray D))))
             else raise_m BadRhsDimension) (\<lambda>s_inv.
     bind_m (fresh_array (take_rows (toarray B) pp)) (\<lambda>bp.
     bind_m (ext (factor_solve_L_m bk f bp)) (\<lambda>y.
     bind_m (look s_inv) (\<lambda>S.
     bind_m (look y) (\<lambda>Y.
     bind_m (fresh_array (np_mul (toarray S) (toarray Y))) (\<lambda>out.
     if positive_entries (toarray D) then ret_m out else raise_m NonFiniteResult))))))))"

definition SparsePosDefSolver_L_m ::
  "('lu, 'ch) backend_m \<Rightarrow> 'ch \<Rightarrow> nat list \<Rightarrow> addr prog" where
  "SparsePosDefSolver_L_m bk f pp =
     bind_m (ext (factor_L_m bk f)) (\<lambda>l.
     bind_m (look l) (\<lambda>L.
     case take_rows (toarray L) (argsort pp) of
       Inl e \<Rightarrow> raise_m e
     | Inr out \<Rightarrow> new (Sparse out)))"

definition PosDefSolver_init_m ::
  "bool \<Rightarrow> ('lu, 'ch) backend_m \<Rightarrow> addr \<Rightarrow> 'ch posdef_solver_m prog" where
  "PosDefSolver_init_m HAS_CHOLMOD bk a0 =
     bind_m (as_sparse_or_array_m a0) (\<lambda>a1.
     bind_m (look a1) (\<lambda>A1.
     bind_m (if issparse A1 \<and> \<not> HAS_CHOLMOD then new (Dense (toarray A1)) else ret_m a1) (\<lambda>a.
     bind_m (look a) (\<lambda>A.
       if issparse A then SparsePosDefSolver_init_m bk a
       else bind_m (cholesky_m bk a True) (\<lambda>c. ret_m (DensePosDefSolver_m c))))))"

definition PosDefSolver_solve_m ::
  "('lu, 'ch) backend_m \<Rightarrow> 'ch posdef_solver_m \<Rightarrow> addr \<Rightarrow> addr prog" where
  "PosDefSolver_solve_m bk s b0 =
     bind_m (as_array_m b0) (\<lambda>b.
       case s of
         SparsePosDefSolver_m f dd pp \<Rightarrow> ext (factor_solve_A_m bk f b)
       | DensePosDefSolver_m c \<Rightarrow> solve_cholesky_m bk c b True)"

definition PosDefSolver_solve_L_m ::
  "('lu, 'ch) backend_m \<Rightarrow> 'ch posdef_solver_m \<Rightarrow> addr \<Rightarrow> addr prog" where
  "PosDefSolver_solve_L_m bk s b0 =
     bind_m (as_array_m b0) (\<lambda>b.
       case s of
         SparsePosDefSolver_m f dd pp \<Rightarrow> SparsePosDefSolver_solve_L_m bk f dd pp b
       | DensePosDefSolver_m c \<Rightarrow> solve_triangular_m bk c b True)"

definition PosDefSolver_L_m ::
  "('lu, 'ch) backend_m \<Rightarrow> 'ch posdef_solver_m \<Rightarrow> addr prog" where
  "PosDefSolver_L_m bk s =
     (case s of
        SparsePosDefSolver_m f dd pp \<Rightarrow> SparsePosDefSolver_L_m bk f pp
      | DensePosDefSolver_m c \<Rightarrow> ret_m c)"

definition PosDefSolver_log_det_m :: "'ch posdef_solver_m \<Rightarrow> real prog" where
  "PosDefSolver_log_det_m s =
     (case s of
        SparsePosDefSolver_m f dd pp \<Rightarrow>
          bind_m (look dd) (\<lambda>D. ret_m (np_sum (np_log (toarray D))))
      | DensePosDefSolver_m c \<Rightarrow>
          bind_m (look c) (\<lambda>C.
            case np_diag (toarray C) of
              Inl e \<Rightarrow> raise_m e
            | Inr dg \<Rightarrow> ret_m (2 * np_sum (np_log dg))))"

datatype 'lu partitioned_solver_m = PartitionedSolver_m "'lu solver_m" nat

definition stack2 ::
  "(ndarray \<Rightarrow> ndarray \<Rightarrow> exc + ndarray) \<Rightarrow> bool \<Rightarrow> addr \<Rightarrow> addr \<Rightarrow> addr prog" where
  "stack2 f sparse x y =
     bind_m (look x) (\<lambda>X.
     bind_m (look y) (\<lambda>Y.
       case f (toarray X) (toarray Y) of
         Inl e \<Rightarrow> raise_m e
       | Inr v \<Rightarrow> new (if sparse then Sparse v else Dense v)))"

definition PartitionedSolver_init_m ::
  "('lu, 'ch) backend_m \<Rightarrow> addr \<Rightarrow> addr \<Rightarrow> 'lu partitioned_solver_m prog" where
  "PartitionedSolver_init_m bk a0 b0 =
     bind_m (as_sparse_or_array_m a0) (\<lambda>a.
     bind_m (as_array_m b0) (\<lambda>b.
     bind_m (look a) (\<lambda>A.
     bind_m (look b) (\<lambda>B.
     case shape (toarray B) of
       [n, q] \<Rightarrow>
         if n < q then raise_m BlockSingular
         else
           bind_m (new (if issparse A then Sparse (zeros [q, q]) else Dense (zeros [q, q]))) (\<lambda>z.
           bind_m (stack2 (if issparse A then sp_hstack else np_hstack) (issparse A) a b) (\<lambda>t.
           bind_m (new (Dense (np_T (toarray B)))) (\<lambda>bt.
           bind_m (stack2 (if issparse A then sp_hstack else np_hstack) (issparse A) bt z) (\<lambda>u.
           bind_m (stack2 (if issparse A then sp_vstack else np_vstack) (issparse A) t u) (\<lambda>c.
           bind_m (Solver_init_m bk c) (\<lambda>s. ret_m (PartitionedSolver_m s n)))))))
     | _ \<Rightarrow> raise_m ShapeMismatch))))"

definition PartitionedSolver_solve_m ::
  "('lu, 'ch) backend_m \<Rightarrow> 'lu partitioned_solver_m \<Rightarrow> addr \<Rightarrow> addr \<Rightarrow> (addr \<times> addr) prog" where
  "PartitionedSolver_solve_m bk ps a0 b0 =
     (case ps of PartitionedSolver_m s n \<Rightarrow>
        bind_m (as_array_m a0) (\<lambda>a.
        bind_m (as_array_m b0) (\<lambda>b.
        bind_m (stack2 concat0 False a b) (\<lambda>c.
        bind_m (Solver_solve_m bk s c) (\<lambda>xy.
        bind_m (look xy) (\<lambda>XY.
        bind_m (fresh_array (slice_to (toarray XY) n)) (\<lambda>x.
        bind_m (fresh_array (slice_from (toarray XY) n)) (\<lambda>y. ret_m (x, y)))))))))"

datatype 'ch partitioned_posdef_solver_m =
  PartitionedPosDefSolver_m addr "'ch posdef_solver_m" "'ch posdef_solver_m"

definition PartitionedPosDefSolver_init_m ::
  "bool \<Rightarrow> ('lu, 'ch) backend_m \<Rightarrow> addr \<Rightarrow> addr \<Rightarrow> 'ch partitioned_posdef_solver_m prog" where
  "PartitionedPosDefSolver_init_m HAS_CHOLMOD bk a0 b0 =
     bind_m (as_sparse_or_array_m a0) (\<lambda>a.
     bind_m (as_array_m b0) (\<lambda>b.
     bind_m (look b) (\<lambda>B.
     case shape (toarray B) of
       [n, q] \<Rightarrow>
         if n < q then raise_m BlockSingular
         else
           bind_m (PosDefSolver_init_m HAS_CHOLMOD bk a) (\<lambda>As.
           bind_m (PosDefSolver_solve_m bk As b) (\<lambda>x.
           bind_m (new (Dense (np_T (toarray B)))) (\<lambda>bt.
           bind_m (stack2 np_dot False bt x) (\<lambda>sc.
           bind_m (PosDefSolver_init_m HAS_CHOLMOD bk sc) (\<lambda>Ss.
           ret_m (PartitionedPosDefSolver_m x As Ss))))))
     | _ \<Rightarrow> raise_m ShapeMismatch)))"

definition negate :: "addr \<Rightarrow> addr prog" where
  "negate x = bind_m (look x) (\<lambda>X. new (Dense (np_neg (toarray X))))"

definition transposed :: "addr \<Rightarrow> addr prog" where
  "transposed x = bind_m (look x) (\<lambda>X. new (Dense (np_T (toarray X))))"

definition PartitionedPosDefSolver_solve_m ::
  "('lu, 'ch) backend_m \<Rightarrow> 'ch partitioned_posdef_solver_m \<Rightarrow> addr \<Rightarrow> addr
     \<Rightarrow> (addr \<times> addr) prog" where
  "PartitionedPosDefSolver_solve_m bk ps a0 b0 =
     (case ps of PartitionedPosDefSolver_m X As Ss \<Rightarrow>
        bind_m (as_array_m a0) (\<lambda>a.
        bind_m (as_array_m b0) (\<lambda>b.
        bind_m (PosDefSolver_solve_m bk Ss b) (\<lambda>r1.
        bind_m (negate r1) (\<lambda>Eb.
        bind_m (stack2 np_dot False X Eb) (\<lambda>r2.
        bind_m (negate r2) (\<lambda>Db.
        bind_m (transposed X) (\<lambda>Xt.
        bind_m (stack2 np_dot False Xt a) (\<lambda>r3.
        bind_m (PosDefSolver_solve_m bk Ss r3) (\<lambda>Dta.
        bind_m (PosDefSolver_solve_m bk As a) (\<lambda>r4.
        bind_m (stack2 np_dot False X Dta) (\<lambda>r5.
        bind_m (stack2 np_sub False r4 r5) (\<lambda>Ca.
        bind_m (stack2 np_add False Ca Db) (\<lambda>x.
        bind_m (stack2 np_add False Dta Eb) (\<lambda>y. ret_m (x, y))))))))))))))))"


definition frame :: "'a prog \<Rightarrow> bool" where
  "frame m = (\<forall>h. extends h (snd (m h)))"

text \<open>
  \<open>in_memory\<close> turns a table of responses into routines on the heap, the way f2py
  documents them: with the overwrite flag the result is written into the buffer of the
  argument, otherwise it is a new array.
\<close>

definition store_result :: "bool \<Rightarrow> addr \<Rightarrow> matrix \<Rightarrow> heap \<Rightarrow> addr \<times> heap" where
  "store_result overwrite a v h =
     (if overwrite then (a, h\<lparr>objs := (objs h)(a := v)\<rparr>)
      else (top h, h\<lparr>objs := (objs h)(top h := v), top := Suc (top h)\<rparr>))"

definition returning ::
  "bool \<Rightarrow> addr \<Rightarrow> heap \<Rightarrow> backend_exc + (ndarray \<times> 'a) \<Rightarrow> (backend_exc + (addr \<times> 'a)) \<times> heap" where
  "returning overwrite a h r =
     (case r of
        Inl e \<Rightarrow> (Inl e, h)
      | Inr (v, rest) \<Rightarrow>
          (case store_result overwrite a (Dense v) h of (x, h') \<Rightarrow> (Inr (x, rest), h')))"

definition returning_new ::
  "bool \<Rightarrow> heap \<Rightarrow> backend_exc + ndarray \<Rightarrow> (backend_exc + addr) \<times> heap" where
  "returning_new sparse h r =
     (case r of
        Inl e \<Rightarrow> (Inl e, h)
      | Inr v \<Rightarrow>
          (case store_result False 0 (if sparse then Sparse v else Dense v) h of
             (x, h') \<Rightarrow> (Inr x, h')))"

definition arr :: "heap \<Rightarrow> addr \<Rightarrow> ndarray" where
  "arr h a = toarray (objs h a)"

definition in_memory :: "('lu, 'ch) backend \<Rightarrow> ('lu, 'ch) backend_m" where
  "in_memory vb = \<lparr>
     dgetrf_m = (\<lambda>a ow h. returning ow a h (dgetrf vb (arr h a))),
     dgetrs_m = (\<lambda>fac piv b ow h. returning ow b h (dgetrs vb (arr h fac) piv (arr h b))),
     dpotrf_m = (\<lambda>a lower ow h. returning ow a h (dpotrf vb (arr h a) lower)),
     dpotrs_m = (\<lambda>c b lower ow h. returning ow b h (dpotrs vb (arr h c) (arr h b) lower)),
     dtrtrs_m = (\<lambda>c b lower ow h. returning ow b h (dtrtrs vb (arr h c) (arr h b) lower)),
     spilu_m = (\<lambda>a h. (spilu vb (arr h a), h)),
     superlu_solve_m = (\<lambda>f b h. returning_new False h (superlu_solve vb f (arr h b))),
     cholmod_cholesky_m = (\<lambda>a h. (cholmod_cholesky vb (arr h a), h)),
     factor_D_m = (\<lambda>f h. returning_new False h (factor_D vb f)),
     factor_P_m = (\<lambda>f h. (factor_P vb f, h)),
     factor_solve_A_m = (\<lambda>f b h. returning_new False h (factor_solve_A vb f (arr h b))),
     factor_solve_L_m = (\<lambda>f b h. returning_new False h (factor_solve_L vb f (arr h b))),
     factor_L_m = (\<lambda>f h. returning_new True h (factor_L vb f)) \<rparr>"

definition saddle_heap :: heap where
  "saddle_heap = \<lparr> objs = (\<lambda>a. if a = 0 then Dense I3 else Dense ones31), top = 2 \<rparr>"

definition A45_heap :: heap where
  "A45_heap = \<lparr> objs = (\<lambda>a. Dense A45), top = 1 \<rparr>"

section \<open>Basic facts\<close>

lemma bind_ret [simp]: "bind (ret x) f = f x"
  by (simp add: bind_def ret_def split: prod.splits)

lemma bind_raise [simp]: "bind (raise e) f = raise e"
  by (simp add: bind_def raise_def)

lemma bind_Inl [simp]: "bind (Inl e, t) f = (Inl e, t)"
  by (simp add: bind_def)

lemma bind_Inr [simp]: "bind (Inr x, t) f = (fst (f x), t @ snd (f x))"
  by (simp add: bind_def split: prod.splits)

lemma fst_bind_Inl:
  "fst (bind m f) = Inl e \<longleftrightarrow> fst m = Inl e \<or> (\<exists>x. fst m = Inr x \<and> fst (f x) = Inl e)"
  by (cases m; cases "fst m") (auto simp: bind_def split: prod.splits sum.splits)

lemma fst_lift [simp]: "fst (lift r) = r"
  by (simp add: lift_def)

lemma fst_ret [simp]: "fst (ret x) = Inr x"
  by (simp add: ret_def)

lemma fst_raise [simp]: "fst (raise e) = Inl e"
  by (simp add: raise_def)

lemma fst_call: "fst (call c r) = (case r of Inl e \<Rightarrow> Inl (Backend e) | Inr v \<Rightarrow> Inr v)"
  by (simp add: call_def split: sum.splits)

lemma call_not_BlockSingular [simp]: "fst (call c r) \<noteq> Inl BlockSingular"
  by (simp add: fst_call split: sum.splits)

lemma np_binop_not_BlockSingular [simp]: "np_binop f a b \<noteq> Inl BlockSingular"
  by (simp add: np_binop_def split: option.splits)

lemma concat0_not_BlockSingular [simp]: "concat0 a b \<noteq> Inl BlockSingular"
  by (simp add: concat0_def)

lemma concat1_not_BlockSingular [simp]: "concat1 a b \<noteq> Inl BlockSingular"
  by (simp add: concat1_def)

lemma np_dot_not_BlockSingular [simp]: "np_dot a b \<noteq> Inl BlockSingular"
  by (simp add: np_dot_def np_mul_def Let_def)

lemma stack_not_BlockSingular [simp]:
  "np_hstack a b \<noteq> Inl BlockSingular" "np_vstack a b \<noteq> Inl BlockSingular"
  "sp_hstack a b \<noteq> Inl BlockSingular" "sp_vstack a b \<noteq> Inl BlockSingular"
  by (simp_all add: np_hstack_def np_vstack_def sp_hstack_def sp_vstack_def)

lemma lu_not_BlockSingular [simp]: "fst (lu bk A) \<noteq> Inl BlockSingular"
  by (auto simp: lu_def fst_bind_Inl split: prod.splits)

lemma cholesky_not_BlockSingular [simp]: "fst (cholesky bk A lower) \<noteq> Inl BlockSingular"
  by (auto simp: cholesky_def fst_bind_Inl split: prod.splits)

lemma solve_cholesky_not_BlockSingular [simp]:
  "fst (solve_cholesky bk L b lower) \<noteq> Inl BlockSingular"
  by (auto simp: solve_cholesky_def fst_bind_Inl split: prod.splits)

lemma Solver_init_not_BlockSingular [simp]: "fst (Solver_init bk A) \<noteq> Inl BlockSingular"
  by (auto simp: Solver_init_def SparseSolver_init_def DenseSolver_init_def Let_def
      fst_bind_Inl split: prod.splits)

lemma PosDefSolver_init_not_BlockSingular [simp]:
  "fst (PosDefSolver_init hc bk A) \<noteq> Inl BlockSingular"
  by (auto simp: PosDefSolver_init_def SparsePosDefSolver_init_def DensePosDefSolver_init_def
      Let_def fst_bind_Inl warn_def split: prod.splits if_splits)

lemma PosDefSolver_solve_not_BlockSingular [simp]:
  "fst (PosDefSolver_solve bk s b) \<noteq> Inl BlockSingular"
  by (auto simp: PosDefSolver_solve_def SparsePosDefSolver_solve_def DensePosDefSolver_solve_def
      Let_def split: posdef_solver.splits)

lemma chunks_numeral [simp]:
  "chunks k (numeral n) xs = take k xs # chunks k (pred_numeral n) (drop k xs)"
  by (simp add: numeral_eq_Suc)

lemma chunks_1 [simp]: "chunks k (Suc 0) xs = [take k xs]"
  by simp


lemmas array_defs =
  ndim_def zeros_def has_zero_axis_def issparse_def toarray_def as_sparse_or_array_def
  as_array_def axis0_def take_rows_def slice_to_def slice_from_def expand_axis1_def
  np_map_def np_sqrt_def np_log_def np_neg_def np_sum_def broadcast_shapes_def
  broadcast_to_def np_binop_def np_mul_def np_add_def np_sub_def np_T_def inner_def
  columns_def np_dot_def concat0_def concat1_def atleast_1d_def atleast_2d_def
  np_hstack_def np_vstack_def sp_hstack_def sp_vstack_def argsort_def np_diag_def

lemmas effect_defs =
  ret_def raise_def bind_def call_def warn_def calls_def warnings_def outcome_def lift_def

lemmas solver_defs =
  lu_def solve_lu_def cholesky_def solve_cholesky_def solve_triangular_def
  SparseSolver_init_def DenseSolver_init_def Solver_init_def Solver_solve_def
  SparsePosDefSolver_init_def SparsePosDefSolver_solve_def SparsePosDefSolver_solve_L_def
  SparsePosDefSolver_L_def SparsePosDefSolver_log_det_def DensePosDefSolver_init_def
  DensePosDefSolver_solve_def DensePosDefSolver_solve_L_def DensePosDefSolver_L_def
  DensePosDefSolver_log_det_def PosDefSolver_init_def PosDefSolver_solve_def
  PosDefSolver_solve_L_def PosDefSolver_L_def PosDefSolver_log_det_def
  is_positive_definite_def unpack2_def PartitionedSolver_init_def PartitionedSolver_solve_def
  PartitionedPosDefSolver_init_def PartitionedPosDefSolver_solve_def

lemmas fixture_defs =
  recorded_def no_backend_def saddle_backend_def I3_def ones31_def wide12_def
  minus11_def indefinite_backend_def empty_sparse_backend_def A22_def b22_def
  cholmod_backend_def A45_def A45_upper_def lower_backend_def Lunit22_def


section \<open>The block-structure check\<close>

text \<open>
  Claim C4. Let \<open>B\<close>, made dense, be \<open>n\<close> by \<open>q\<close>. If \<open>n < q\<close>, constructing either
  partitioned solver raises the block-structure-singular error and the list of backend calls
  and warnings is empty: nothing was factored before. If \<open>n \<ge> q\<close> the check passes: whatever
  the construction then does, it does not raise that error.
\<close>

theorem partitioned_block_check:
  assumes "shape (as_array B) = [n, q]"
  shows "(n < q \<longrightarrow>
            PartitionedSolver_init bk A B = (Inl BlockSingular, [])
          \<and> PartitionedPosDefSolver_init hc bk A B = (Inl BlockSingular, []))
       \<and> (q \<le> n \<longrightarrow>
            outcome (PartitionedSolver_init bk A B) \<noteq> Inl BlockSingular
          \<and> outcome (PartitionedPosDefSolver_init hc bk A B) \<noteq> Inl BlockSingular)"
proof (intro conjI impI)
  assume "n < q"
  then show "PartitionedSolver_init bk A B = (Inl BlockSingular, [])"
    using assms by (simp add: PartitionedSolver_init_def unpack2_def Let_def raise_def)
  from \<open>n < q\<close> show "PartitionedPosDefSolver_init hc bk A B = (Inl BlockSingular, [])"
    using assms by (simp add: PartitionedPosDefSolver_init_def unpack2_def Let_def raise_def)
next
  assume "q \<le> n"
  then show "outcome (PartitionedSolver_init bk A B) \<noteq> Inl BlockSingular"
    using assms
    by (auto simp: outcome_def PartitionedSolver_init_def unpack2_def Let_def fst_bind_Inl)
  from \<open>q \<le> n\<close> show "outcome (PartitionedPosDefSolver_init hc bk A B) \<noteq> Inl BlockSingular"
    using assms
    by (auto simp: outcome_def PartitionedPosDefSolver_init_def unpack2_def Let_def fst_bind_Inl)
qed

theorem partitioned_block_check_witness:
  "shape (as_array (Dense wide12)) = [1, 2] \<and> (1::nat) < 2
   \<and> PartitionedSolver_init saddle_backend (Dense I3) (Dense wide12) = (Inl BlockSingular, [])
   \<and> PartitionedPosDefSolver_init True saddle_backend (Dense I3) (Dense wide12)
       = (Inl BlockSingular, [])
   \<and> shape (as_array (Dense ones31)) = [3, 1] \<and> (1::nat) \<le> 3
   \<and> outcome (PartitionedSolver_init saddle_backend (Dense I3) (Dense ones31))
       \<noteq> Inl BlockSingular
   \<and> outcome (PartitionedPosDefSolver_init True saddle_backend (Dense I3) (Dense ones31))
       \<noteq> Inl BlockSingular"
  using partitioned_block_check [where B = "Dense wide12" and n = 1 and q = 2
      and bk = saddle_backend and A = "Dense I3" and hc = True]
    partitioned_block_check [where B = "Dense ones31" and n = 3 and q = 1
      and bk = saddle_backend and A = "Dense I3" and hc = True]
  by (simp add: as_array_def issparse_def toarray_def wide12_def ones31_def)

section \<open>is_positive_definite when CHOLMOD is not installed\<close>

text \<open>
  Whatever exception the attempt raises, without CHOLMOD the handler's own expression
  fails first, with a NameError.
\<close>

lemma attempt_raises_without_cholmod:
  assumes "fst (bind (PosDefSolver_init False bk A) (PosDefSolver_L bk)) = Inl e"
  shows "fst (is_positive_definite False bk A) = Inl (NameError ''cholmod'')"
  using assms
  by (cases "bind (PosDefSolver_init False bk A) (PosDefSolver_L bk)")
    (auto simp: is_positive_definite_def split: sum.splits)

lemma not_posdef_without_cholmod:
  assumes "shape (toarray A) \<noteq> [0, 0]" and "dpotrf bk (toarray A) True = Inr (L, info)"
    and "0 < info"
  shows "is_positive_definite False bk A = (Inl (NameError ''cholmod''), snd (PosDefSolver_init False bk A))"
  using assms
  by (cases A) (simp_all add: is_positive_definite_def PosDefSolver_init_def
      as_sparse_or_array_def issparse_def toarray_def DensePosDefSolver_init_def cholesky_def
      effect_defs)

text \<open>
  Claim C2, at the input where the module fails it. With CHOLMOD not installed and the dense
  matrix \<open>[[-1]]\<close>, \<open>dpotrf\<close> reports the leading minor of order 1; the wrapper raises
  LinAlgError, and \<open>is_positive_definite\<close> ends in NameError instead of returning False.
\<close>

theorem is_positive_definite_name_error:
  "is_positive_definite False indefinite_backend (Dense minus11)
     = (Inl (NameError ''cholmod''), [Call DPOTRF])"
  by (simp add: array_defs effect_defs solver_defs fixture_defs)

text \<open>The same input with CHOLMOD installed: the answer is False.\<close>

lemma is_positive_definite_true_side:
  "is_positive_definite True indefinite_backend (Dense minus11) = (Inr False, [Call DPOTRF])"
  by (simp add: array_defs effect_defs solver_defs fixture_defs)

text \<open>
  With CHOLMOD installed the function does what its docstring says: it returns False exactly
  when the attempt raised the not-positive-definite LinAlgError of the dense path or CHOLMOD's
  own error, True when the attempt returned, and any other exception propagates.
\<close>

lemma take_rows_class: "take_rows b idx = Inl e \<Longrightarrow> class_of e \<noteq> LinAlgError"
  by (auto simp: take_rows_def split: if_splits)

lemma backend_class: "class_of (Backend x) \<noteq> LinAlgError"
  by (cases x) simp_all

lemma call_class: "fst (call c r) = Inl e \<Longrightarrow> class_of e \<noteq> LinAlgError"
  by (cases r) (auto simp: call_def backend_class)

lemma cholesky_LinAlgError:
  assumes "fst (cholesky bk A lower) = Inl e" and "class_of e = LinAlgError"
  shows "\<exists>k. e = NotPosDefMinor k"
  using assms
  by (auto simp: cholesky_def fst_bind_Inl dest: call_class split: if_splits prod.splits)

lemma SparsePosDefSolver_init_class:
  "fst (SparsePosDefSolver_init bk A) = Inl e \<Longrightarrow> class_of e \<noteq> LinAlgError"
  by (auto simp: SparsePosDefSolver_init_def fst_bind_Inl dest: call_class)

lemma PosDefSolver_init_LinAlgError:
  assumes "fst (PosDefSolver_init hc bk A) = Inl e" and "class_of e = LinAlgError"
  shows "\<exists>k. e = NotPosDefMinor k"
  using assms
  by (auto simp: PosDefSolver_init_def DensePosDefSolver_init_def fst_bind_Inl warn_def Let_def
      dest: cholesky_LinAlgError SparsePosDefSolver_init_class split: if_splits)

lemma PosDefSolver_L_class:
  "fst (PosDefSolver_L bk s) = Inl e \<Longrightarrow> class_of e \<noteq> LinAlgError"
  by (cases s)
    (auto simp: PosDefSolver_L_def SparsePosDefSolver_L_def DensePosDefSolver_L_def
      fst_bind_Inl Let_def dest: call_class take_rows_class)

lemma attempt_LinAlgError:
  assumes "fst (bind (PosDefSolver_init hc bk A) (PosDefSolver_L bk)) = Inl e"
    and "class_of e = LinAlgError"
  shows "\<exists>k. e = NotPosDefMinor k"
  using assms
  by (auto simp: fst_bind_Inl dest: PosDefSolver_init_LinAlgError PosDefSolver_L_class)

lemma is_positive_definite_with_cholmod:
  "outcome (is_positive_definite True bk A) =
     (case outcome (bind (PosDefSolver_init True bk A) (PosDefSolver_L bk)) of
        Inr _ \<Rightarrow> Inr True
      | Inl e \<Rightarrow>
          if (\<exists>k. e = NotPosDefMinor k) \<or> e = Backend CholmodNotPositiveDefiniteError
          then Inr False else Inl e)"
proof (cases "bind (PosDefSolver_init True bk A) (PosDefSolver_L bk)")
  case (Pair r t)
  show ?thesis
  proof (cases r)
    case (Inr v)
    with Pair show ?thesis by (simp add: is_positive_definite_def outcome_def)
  next
    case (Inl e)
    have "class_of e = LinAlgError \<longleftrightarrow> (\<exists>k. e = NotPosDefMinor k)"
      using attempt_LinAlgError[of True bk A e] Pair Inl by auto
    moreover have "class_of e = CholmodNotPositiveDefiniteErrorClass
        \<longleftrightarrow> e = Backend CholmodNotPositiveDefiniteError"
      by (cases e rule: class_of.cases) simp_all
    ultimately show ?thesis
      using Pair Inl by (simp add: is_positive_definite_def outcome_def)
  qed
qed

section \<open>Zero-size inputs\<close>

lemma prod_list_zero: "(0::nat) \<in> set s \<Longrightarrow> prod_list s = 0"
  by (induction s) auto

lemma zeros_zero_axis: "0 \<in> set s \<Longrightarrow> zeros s = NDArray s []"
  by (simp add: zeros_def prod_list_zero)

text \<open>
  Claim C3 as stated fails on the sparse path: constructing a Solver on an empty sparse
  matrix calls SuperLU, and so does solving with an empty right-hand side; a PosDefSolver
  with CHOLMOD installed calls CHOLMOD in the same way.
\<close>

theorem zero_size_counterexample:
  "calls (Solver_init empty_sparse_backend (Sparse (NDArray [0, 0] []))) = [SPILU]
   \<and> calls (bind (Solver_init empty_sparse_backend (Sparse (NDArray [0, 0] [])))
        (\<lambda>s. Solver_solve empty_sparse_backend s (Dense (NDArray [0] []))))
       = [SPILU, SUPERLU_SOLVE]
   \<and> calls (bind (PosDefSolver_init True empty_sparse_backend (Sparse (NDArray [0, 0] [])))
        (\<lambda>s. PosDefSolver_solve empty_sparse_backend s (Dense (NDArray [0] []))))
       = [CHOLMOD_CHOLESKY, CHOLMOD_D, CHOLMOD_P, CHOLMOD_SOLVE_A]"
  by (simp add: array_defs effect_defs solver_defs fixture_defs)

text \<open>
  Claim C3, amended to the dense path. A dense 0 by 0 matrix constructs a Solver and a
  PosDefSolver without any backend call and without raising (a sparse one too when CHOLMOD is
  not installed, after the warning); \<open>L\<close> is then the empty matrix and \<open>log_det\<close> is 0.
  On a dense solver, \<open>solve\<close> and \<open>solve_L\<close> of a right-hand side with an axis of length 0
  return the array of that shape with no entries, without any backend call.
  On the sparse path the backend is called whatever the sizes are: SuperLU at the
  construction of a Solver and at each solve, CHOLMOD first thing at the construction of a
  PosDefSolver and at each solve.
\<close>

theorem zero_size_dense:
  "(shape A = [0, 0] \<longrightarrow>
       Solver_init bk (Dense A) = (Inr (DenseSolver (NDArray [0, 0] []) []), [])
     \<and> PosDefSolver_init hc bk (Dense A) = (Inr (DensePosDefSolver (NDArray [0, 0] [])), [])
     \<and> PosDefSolver_init False bk (Sparse A)
         = (Inr (DensePosDefSolver (NDArray [0, 0] [])), [Warn CHOLMOD_MSG])
     \<and> PosDefSolver_L bk (DensePosDefSolver (NDArray [0, 0] []))
         = (Inr (Dense (NDArray [0, 0] [])), [])
     \<and> PosDefSolver_log_det (DensePosDefSolver (NDArray [0, 0] [])) = (Inr 0, []))
   \<and> (has_zero_axis (as_array b) \<longrightarrow>
       Solver_solve bk (DenseSolver fac piv) b = (Inr (NDArray (shape (as_array b)) []), [])
     \<and> PosDefSolver_solve bk (DensePosDefSolver c) b
         = (Inr (NDArray (shape (as_array b)) []), [])
     \<and> PosDefSolver_solve_L bk (DensePosDefSolver c) b
         = (Inr (NDArray (shape (as_array b)) []), []))
   \<and> calls (Solver_init bk (Sparse A)) = [SPILU]
   \<and> calls (Solver_solve bk (SparseSolver f) b) = [SUPERLU_SOLVE]
   \<and> take 1 (calls (PosDefSolver_init True bk (Sparse A))) = [CHOLMOD_CHOLESKY]
   \<and> calls (PosDefSolver_solve bk (SparsePosDefSolver g dd pp) b) = [CHOLMOD_SOLVE_A]"
proof (intro conjI impI)
  show "calls (Solver_init bk (Sparse A)) = [SPILU]"
    by (simp add: Solver_init_def SparseSolver_init_def as_sparse_or_array_def issparse_def
        toarray_def effect_defs split: sum.splits)
  show "calls (Solver_solve bk (SparseSolver f) b) = [SUPERLU_SOLVE]"
    by (simp add: Solver_solve_def effect_defs split: sum.splits)
  show "take 1 (calls (PosDefSolver_init True bk (Sparse A))) = [CHOLMOD_CHOLESKY]"
    by (simp add: PosDefSolver_init_def SparsePosDefSolver_init_def as_sparse_or_array_def
        issparse_def toarray_def effect_defs split: sum.splits prod.splits)
  show "calls (PosDefSolver_solve bk (SparsePosDefSolver g dd pp) b) = [CHOLMOD_SOLVE_A]"
    by (simp add: PosDefSolver_solve_def SparsePosDefSolver_solve_def effect_defs
        split: sum.splits)
next
  assume A: "shape A = [0, 0]"
  show "Solver_init bk (Dense A) = (Inr (DenseSolver (NDArray [0, 0] []) []), [])"
    using A by (simp add: Solver_init_def DenseSolver_init_def lu_def as_sparse_or_array_def
        issparse_def toarray_def zeros_def ret_def bind_def)
  show "PosDefSolver_init hc bk (Dense A) = (Inr (DensePosDefSolver (NDArray [0, 0] [])), [])"
    using A by (simp add: PosDefSolver_init_def DensePosDefSolver_init_def cholesky_def
        as_sparse_or_array_def issparse_def toarray_def zeros_def ret_def bind_def)
  show "PosDefSolver_init False bk (Sparse A)
         = (Inr (DensePosDefSolver (NDArray [0, 0] [])), [Warn CHOLMOD_MSG])"
    using A by (simp add: PosDefSolver_init_def DensePosDefSolver_init_def cholesky_def
        as_sparse_or_array_def issparse_def toarray_def zeros_def ret_def bind_def warn_def)
  show "PosDefSolver_L bk (DensePosDefSolver (NDArray [0, 0] []))
         = (Inr (Dense (NDArray [0, 0] [])), [])"
    by (simp add: PosDefSolver_L_def DensePosDefSolver_L_def ret_def)
  show "PosDefSolver_log_det (DensePosDefSolver (NDArray [0, 0] [])) = (Inr 0, [])"
    by (simp add: PosDefSolver_log_det_def DensePosDefSolver_log_det_def np_diag_def np_log_def
        np_map_def np_sum_def lift_def ret_def bind_def)
next
  assume b: "has_zero_axis (as_array b)"
  then have z: "zeros (shape (as_array b)) = NDArray (shape (as_array b)) []"
    by (simp add: has_zero_axis_def zeros_zero_axis)
  show "Solver_solve bk (DenseSolver fac piv) b = (Inr (NDArray (shape (as_array b)) []), [])"
    using b z by (simp add: Solver_solve_def solve_lu_def ret_def Let_def)
  show "PosDefSolver_solve bk (DensePosDefSolver c) b
         = (Inr (NDArray (shape (as_array b)) []), [])"
    using b z by (simp add: PosDefSolver_solve_def DensePosDefSolver_solve_def
        solve_cholesky_def ret_def Let_def)
  show "PosDefSolver_solve_L bk (DensePosDefSolver c) b
         = (Inr (NDArray (shape (as_array b)) []), [])"
    using b z by (simp add: PosDefSolver_solve_L_def DensePosDefSolver_solve_L_def
        solve_triangular_def ret_def Let_def)
qed

theorem zero_size_dense_witness:
  "shape (NDArray [0, 0] []) = [0, 0]
   \<and> Solver_init no_backend (Dense (NDArray [0, 0] []))
       = (Inr (DenseSolver (NDArray [0, 0] []) []), [])
   \<and> PosDefSolver_init True no_backend (Dense (NDArray [0, 0] []))
       = (Inr (DensePosDefSolver (NDArray [0, 0] [])), [])
   \<and> has_zero_axis (as_array (Dense (NDArray [3, 0] [])))
   \<and> Solver_solve no_backend (DenseSolver I3 [0, 1, 2]) (Dense (NDArray [3, 0] []))
       = (Inr (NDArray [3, 0] []), [])
   \<and> PosDefSolver_solve no_backend (DensePosDefSolver I3) (Dense (NDArray [3, 0] []))
       = (Inr (NDArray [3, 0] []), [])
   \<and> PosDefSolver_solve_L no_backend (DensePosDefSolver I3) (Dense (NDArray [3, 0] []))
       = (Inr (NDArray [3, 0] []), [])"
  using zero_size_dense [where A = "NDArray [0, 0] []" and bk = no_backend and hc = True
      and b = "Dense (NDArray [3, 0] [])" and fac = I3 and piv = "[0, 1, 2]" and c = I3]
  by (auto simp: has_zero_axis_def as_array_def issparse_def toarray_def)

section \<open>The fallback to the dense path\<close>

text \<open>
  Claim C6. For a sparse \<open>A\<close> and CHOLMOD not installed, constructing a PosDefSolver emits
  the warning once and then does exactly what the construction on the dense \<open>A\<close> does: same
  outcome, same backend calls after the warning. Written out, the construction is the dense
  one: a 0 by 0 matrix gives the solver of the 0 by 0 factor with no backend call; any other
  matrix goes once to \<open>dpotrf\<close> (lower), and the outcome is \<open>dpotrf\<close>'s: its exception,
  the LinAlgError naming the minor for a positive \<open>info\<close>, the ValueError naming the argument
  for a negative one, and for \<open>info = 0\<close> the dense solver that holds the factor \<open>dpotrf\<close>
  returned. A solver it returns is a dense one, so that \<open>solve\<close>, \<open>solve_L\<close>, \<open>L\<close> and
  \<open>log_det\<close> are those of the dense path: \<open>solve\<close> is \<open>dpotrs\<close> on that factor,
  \<open>solve_L\<close> is \<open>dtrtrs\<close> on it, \<open>L\<close> returns it.
\<close>

theorem sparse_without_cholmod_goes_dense:
  "PosDefSolver_init False bk (Sparse a)
     = (outcome (PosDefSolver_init False bk (Dense a)),
        Warn CHOLMOD_MSG # snd (PosDefSolver_init False bk (Dense a)))
   \<and> PosDefSolver_init False bk (Sparse a)
     = (if shape a = [0, 0]
        then (Inr (DensePosDefSolver (zeros [0, 0])), [Warn CHOLMOD_MSG])
        else case dpotrf bk a True of
               Inl e \<Rightarrow> (Inl (Backend e), [Warn CHOLMOD_MSG, Call DPOTRF])
             | Inr (L, info) \<Rightarrow>
                 (if info > 0 then Inl (NotPosDefMinor info)
                  else if info < 0 then Inl (IllegalArgument (- info))
                  else Inr (DensePosDefSolver L),
                  [Warn CHOLMOD_MSG, Call DPOTRF]))
   \<and> warnings (PosDefSolver_init False bk (Sparse a)) = [CHOLMOD_MSG]
   \<and> calls (PosDefSolver_init False bk (Sparse a)) = calls (DensePosDefSolver_init bk a)
   \<and> calls (PosDefSolver_init False bk (Sparse a)) = (if shape a = [0, 0] then [] else [DPOTRF])
   \<and> (\<forall>s. outcome (PosDefSolver_init False bk (Sparse a)) = Inr s
          \<longrightarrow> (\<exists>c. s = DensePosDefSolver c
                \<and> PosDefSolver_solve bk s b = solve_cholesky bk c (as_array b) True
                \<and> PosDefSolver_solve_L bk s b = solve_triangular bk c (as_array b) True
                \<and> PosDefSolver_L bk s = (Inr (Dense c), [])
                \<and> PosDefSolver_log_det s = DensePosDefSolver_log_det c
                \<and> PosDefSolver_solve bk s b
                  = (if has_zero_axis (as_array b)
                     then (Inr (zeros (shape (as_array b))), [])
                     else case dpotrs bk c (as_array b) True of
                            Inl e \<Rightarrow> (Inl (Backend e), [Call DPOTRS])
                          | Inr (x, info) \<Rightarrow>
                              (if info < 0 then Inl (IllegalArgument (- info)) else Inr x,
                               [Call DPOTRS]))
                \<and> PosDefSolver_solve_L bk s b
                  = (if has_zero_axis (as_array b)
                     then (Inr (zeros (shape (as_array b))), [])
                     else case dtrtrs bk c (as_array b) True of
                            Inl e \<Rightarrow> (Inl (Backend e), [Call DTRTRS])
                          | Inr (x, info) \<Rightarrow>
                              (if info < 0 then Inl (IllegalArgument (- info))
                               else if info > 0 then Inl (ZeroDiagonal info)
                               else Inr x,
                               [Call DTRTRS]))))"
proof (intro conjI allI impI)
  show "PosDefSolver_init False bk (Sparse a)
     = (outcome (PosDefSolver_init False bk (Dense a)),
        Warn CHOLMOD_MSG # snd (PosDefSolver_init False bk (Dense a)))"
    by (auto simp: PosDefSolver_init_def DensePosDefSolver_init_def cholesky_def
        as_sparse_or_array_def issparse_def toarray_def effect_defs
        split: prod.splits sum.splits if_splits)
  show e: "PosDefSolver_init False bk (Sparse a)
     = (if shape a = [0, 0]
        then (Inr (DensePosDefSolver (zeros [0, 0])), [Warn CHOLMOD_MSG])
        else case dpotrf bk a True of
               Inl e \<Rightarrow> (Inl (Backend e), [Warn CHOLMOD_MSG, Call DPOTRF])
             | Inr (L, info) \<Rightarrow>
                 (if info > 0 then Inl (NotPosDefMinor info)
                  else if info < 0 then Inl (IllegalArgument (- info))
                  else Inr (DensePosDefSolver L),
                  [Warn CHOLMOD_MSG, Call DPOTRF]))"
    by (auto simp: PosDefSolver_init_def DensePosDefSolver_init_def cholesky_def
        as_sparse_or_array_def issparse_def toarray_def effect_defs
        split: prod.splits sum.splits if_splits)
  show "warnings (PosDefSolver_init False bk (Sparse a)) = [CHOLMOD_MSG]"
    unfolding e by (auto simp: warnings_def split: sum.splits prod.splits)
  show "calls (PosDefSolver_init False bk (Sparse a)) = calls (DensePosDefSolver_init bk a)"
    by (auto simp: PosDefSolver_init_def DensePosDefSolver_init_def cholesky_def
        as_sparse_or_array_def issparse_def toarray_def effect_defs
        split: prod.splits sum.splits if_splits)
  show "calls (PosDefSolver_init False bk (Sparse a)) = (if shape a = [0, 0] then [] else [DPOTRF])"
    unfolding e by (auto simp: calls_def split: sum.splits prod.splits)
next
  fix s
  assume "outcome (PosDefSolver_init False bk (Sparse a)) = Inr s"
  then obtain c where c: "s = DensePosDefSolver c"
    by (auto simp: PosDefSolver_init_def DensePosDefSolver_init_def cholesky_def
        as_sparse_or_array_def issparse_def toarray_def effect_defs
        split: prod.splits sum.splits if_splits)
  have "PosDefSolver_solve bk s b = solve_cholesky bk c (as_array b) True"
    "PosDefSolver_solve_L bk s b = solve_triangular bk c (as_array b) True"
    "PosDefSolver_L bk s = (Inr (Dense c), [])"
    "PosDefSolver_log_det s = DensePosDefSolver_log_det c"
    using c by (simp_all add: PosDefSolver_solve_def PosDefSolver_solve_L_def PosDefSolver_L_def
        PosDefSolver_log_det_def DensePosDefSolver_solve_def DensePosDefSolver_solve_L_def
        DensePosDefSolver_L_def ret_def)
  moreover have "solve_cholesky bk c (as_array b) True
      = (if has_zero_axis (as_array b)
         then (Inr (zeros (shape (as_array b))), [])
         else case dpotrs bk c (as_array b) True of
                Inl e \<Rightarrow> (Inl (Backend e), [Call DPOTRS])
              | Inr (x, info) \<Rightarrow>
                  (if info < 0 then Inl (IllegalArgument (- info)) else Inr x,
                   [Call DPOTRS]))"
    by (auto simp: solve_cholesky_def effect_defs split: prod.splits sum.splits)
  moreover have "solve_triangular bk c (as_array b) True
      = (if has_zero_axis (as_array b)
         then (Inr (zeros (shape (as_array b))), [])
         else case dtrtrs bk c (as_array b) True of
                Inl e \<Rightarrow> (Inl (Backend e), [Call DTRTRS])
              | Inr (x, info) \<Rightarrow>
                  (if info < 0 then Inl (IllegalArgument (- info))
                   else if info > 0 then Inl (ZeroDiagonal info)
                   else Inr x,
                   [Call DTRTRS]))"
    by (auto simp: solve_triangular_def effect_defs split: prod.splits sum.splits)
  ultimately show "\<exists>c. s = DensePosDefSolver c
                \<and> PosDefSolver_solve bk s b = solve_cholesky bk c (as_array b) True
                \<and> PosDefSolver_solve_L bk s b = solve_triangular bk c (as_array b) True
                \<and> PosDefSolver_L bk s = (Inr (Dense c), [])
                \<and> PosDefSolver_log_det s = DensePosDefSolver_log_det c
                \<and> PosDefSolver_solve bk s b
                  = (if has_zero_axis (as_array b)
                     then (Inr (zeros (shape (as_array b))), [])
                     else case dpotrs bk c (as_array b) True of
                            Inl e \<Rightarrow> (Inl (Backend e), [Call DPOTRS])
                          | Inr (x, info) \<Rightarrow>
                              (if info < 0 then Inl (IllegalArgument (- info)) else Inr x,
                               [Call DPOTRS]))
                \<and> PosDefSolver_solve_L bk s b
                  = (if has_zero_axis (as_array b)
                     then (Inr (zeros (shape (as_array b))), [])
                     else case dtrtrs bk c (as_array b) True of
                            Inl e \<Rightarrow> (Inl (Backend e), [Call DTRTRS])
                          | Inr (x, info) \<Rightarrow>
                              (if info < 0 then Inl (IllegalArgument (- info))
                               else if info > 0 then Inl (ZeroDiagonal info)
                               else Inr x,
                               [Call DTRTRS]))"
    using c by (intro exI[of _ c]) simp
qed

theorem sparse_without_cholmod_goes_dense_witness:
  "PosDefSolver_init False lower_backend (Sparse A45)
       = (Inr (DensePosDefSolver (NDArray [2, 2] [2, 0, 1, 2])), [Warn CHOLMOD_MSG, Call DPOTRF])
   \<and> outcome (PosDefSolver_init False lower_backend (Sparse A45))
       = Inr (DensePosDefSolver (NDArray [2, 2] [2, 0, 1, 2]))
   \<and> warnings (PosDefSolver_init False lower_backend (Sparse A45)) = [CHOLMOD_MSG]
   \<and> calls (PosDefSolver_init False lower_backend (Sparse A45)) = [DPOTRF]
   \<and> PosDefSolver_init False indefinite_backend (Sparse minus11)
       = (Inl (NotPosDefMinor 1), [Warn CHOLMOD_MSG, Call DPOTRF])
   \<and> PosDefSolver_init False no_backend (Sparse I3)
       = (Inl (Backend (BackendFailure 0)), [Warn CHOLMOD_MSG, Call DPOTRF])
   \<and> PosDefSolver_init False no_backend (Sparse (NDArray [0, 0] []))
       = (Inr (DensePosDefSolver (NDArray [0, 0] [])), [Warn CHOLMOD_MSG])
   \<and> outcome (PosDefSolver_init False saddle_backend (Sparse I3)) = Inr (DensePosDefSolver I3)
   \<and> PosDefSolver_solve saddle_backend (DensePosDefSolver I3) (Dense ones31)
       = (Inr ones31, [Call DPOTRS])
   \<and> PosDefSolver_solve_L saddle_backend (DensePosDefSolver I3) (Dense ones31)
       = (Inr ones31, [Call DTRTRS])
   \<and> PosDefSolver_L saddle_backend (DensePosDefSolver I3) = (Inr (Dense I3), [])"
proof -
  have t: "tril A45 = NDArray [2, 2] [4, 0, 2, 5]"
    by (simp add: tril_def A45_def upt_rec)
  have d: "dpotrf lower_backend A45 True = Inr (NDArray [2, 2] [2, 0, 1, 2], 0)"
    using t by (simp add: lower_backend_def no_backend_def recorded_def)
  have s: "shape A45 = [2, 2]" by (simp add: A45_def)
  note A = sparse_without_cholmod_goes_dense [where bk = lower_backend and a = A45]
  from A [THEN conjunct2, THEN conjunct1] d s
  have 1: "PosDefSolver_init False lower_backend (Sparse A45)
       = (Inr (DensePosDefSolver (NDArray [2, 2] [2, 0, 1, 2])), [Warn CHOLMOD_MSG, Call DPOTRF])"
    by simp
  from A [THEN conjunct2, THEN conjunct2, THEN conjunct1]
  have w1: "warnings (PosDefSolver_init False lower_backend (Sparse A45)) = [CHOLMOD_MSG]" .
  from A [THEN conjunct2, THEN conjunct2, THEN conjunct2, THEN conjunct2, THEN conjunct1] s
  have w2: "calls (PosDefSolver_init False lower_backend (Sparse A45)) = [DPOTRF]"
    by simp
  from sparse_without_cholmod_goes_dense [where bk = indefinite_backend and a = minus11,
      THEN conjunct2, THEN conjunct1]
  have 2: "PosDefSolver_init False indefinite_backend (Sparse minus11)
       = (Inl (NotPosDefMinor 1), [Warn CHOLMOD_MSG, Call DPOTRF])"
    by (simp add: fixture_defs)
  from sparse_without_cholmod_goes_dense [where bk = no_backend and a = I3,
      THEN conjunct2, THEN conjunct1]
  have 3: "PosDefSolver_init False no_backend (Sparse I3)
       = (Inl (Backend (BackendFailure 0)), [Warn CHOLMOD_MSG, Call DPOTRF])"
    by (simp add: fixture_defs)
  from sparse_without_cholmod_goes_dense [where bk = no_backend and a = "NDArray [0, 0] []",
      THEN conjunct2, THEN conjunct1]
  have 4: "PosDefSolver_init False no_backend (Sparse (NDArray [0, 0] []))
       = (Inr (DensePosDefSolver (NDArray [0, 0] [])), [Warn CHOLMOD_MSG])"
    by (simp add: zeros_def)
  from sparse_without_cholmod_goes_dense [where bk = saddle_backend and a = I3
      and b = "Dense ones31"]
  have 5: "outcome (PosDefSolver_init False saddle_backend (Sparse I3)) = Inr (DensePosDefSolver I3)"
    "PosDefSolver_solve saddle_backend (DensePosDefSolver I3) (Dense ones31)
       = (Inr ones31, [Call DPOTRS])"
    "PosDefSolver_solve_L saddle_backend (DensePosDefSolver I3) (Dense ones31)
       = (Inr ones31, [Call DTRTRS])"
    "PosDefSolver_L saddle_backend (DensePosDefSolver I3) = (Inr (Dense I3), [])"
    by (auto simp: array_defs effect_defs solver_defs fixture_defs)
  from 1 w1 w2 2 3 4 5 show ?thesis by (simp add: outcome_def)
qed

section \<open>Chunks and broadcasting\<close>


lemma length_chunks [simp]: "length (chunks k n xs) = n"
  by (induction n arbitrary: xs) auto





lemma chunks_all_length:
  "n * k \<le> length xs \<Longrightarrow> r \<in> set (chunks k n xs) \<Longrightarrow> length r = k"
proof (induction n arbitrary: xs)
  case 0
  then show ?case by simp
next
  case (Suc n)
  from Suc.prems(1) have k: "k \<le> length xs" and rest: "n * k \<le> length (drop k xs)"
    by auto
  from Suc.prems(2) consider "r = take k xs" | "r \<in> set (chunks k n (drop k xs))"
    by auto
  then show ?case
  proof cases
    case 1
    with k show ?thesis by simp
  next
    case 2
    with Suc.IH[OF rest] show ?thesis by blast
  qed
qed









section \<open>solve_L\<close>









section \<open>The factor returned by L\<close>

lemma map_insort_key: "map f (insort_key f x xs) = insort (f x) (map f xs)"
  by (induction xs) auto

lemma map_sort_key: "map f (sort_key f xs) = sort (map f xs)"
  by (induction xs) (auto simp: map_insort_key)

lemma is_permutation_length: "is_permutation pp n \<Longrightarrow> length pp = n"
  by (metis is_permutation_def length_sort length_upt diff_zero)

lemma is_permutation_distinct: "is_permutation pp n \<Longrightarrow> distinct pp"
  by (metis is_permutation_def distinct_sort distinct_upt)

lemma is_permutation_set: "is_permutation pp n \<Longrightarrow> set pp = {0..<n}"
  by (metis is_permutation_def set_sort set_upt)

lemma argsort_inverse:
  assumes "is_permutation pp n" and "i < n"
  shows "argsort pp ! i < n \<and> pp ! (argsort pp ! i) = i"
proof -
  let ?zs = "sort_key fst (zip pp [0..<length pp])"
  have len: "length pp = n" using assms(1) by (rule is_permutation_length)
  have "map fst ?zs = sort (map fst (zip pp [0..<length pp]))"
    by (rule map_sort_key)
  also have "\<dots> = [0..<n]"
    using assms(1) by (simp add: is_permutation_def)
  finally have fsts: "map fst ?zs = [0..<n]" .
  then have lz: "length ?zs = n"
    by (metis length_map length_upt diff_zero)
  with assms(2) have "fst (?zs ! i) = [0..<n] ! i"
    by (metis fsts nth_map)
  with assms(2) have f: "fst (?zs ! i) = i" by simp
  have "?zs ! i \<in> set ?zs" using lz assms(2) by (intro nth_mem) simp
  then have "?zs ! i \<in> set (zip pp [0..<length pp])" by simp
  then obtain j where j: "pp ! j = fst (?zs ! i)" "[0..<length pp] ! j = snd (?zs ! i)"
    "j < length pp"
    by (auto simp: in_set_zip)
  then have "snd (?zs ! i) = j" by simp
  moreover have "argsort pp ! i = snd (?zs ! i)"
    using lz assms(2) by (simp add: argsort_def)
  ultimately show ?thesis using j f len by simp
qed

lemma length_argsort [simp]: "length (argsort pp) = length pp"
  by (simp add: argsort_def)

lemma argsort_inverse_left:
  assumes "is_permutation pp n" and "i < n"
  shows "argsort pp ! (pp ! i) = i"
proof -
  have len: "length pp = n" using assms(1) by (rule is_permutation_length)
  have "pp ! i \<in> set pp" using assms(2) len by simp
  then have lt: "pp ! i < n" using is_permutation_set[OF assms(1)] by simp
  from argsort_inverse[OF assms(1) lt]
  have "argsort pp ! (pp ! i) < n" "pp ! (argsort pp ! (pp ! i)) = pp ! i" by auto
  then show ?thesis
    using is_permutation_distinct[OF assms(1)] assms(2) len
    by (simp add: nth_eq_iff_index_eq)
qed

lemma chunks_concat:
  "\<forall>r \<in> set rs. length r = m \<Longrightarrow> chunks m (length rs) (concat rs) = rs"
  by (induction rs) auto

lemma chunks_nth:
  "i < n \<Longrightarrow> chunks k n xs ! i = take k (drop (i * k) xs)"
proof (induction n arbitrary: xs i)
  case 0
  then show ?case by simp
next
  case (Suc n)
  show ?case
  proof (cases i)
    case 0
    then show ?thesis by simp
  next
    case (Suc i')
    with Suc.prems have "i' < n" by simp
    from Suc.IH[OF this] Suc show ?thesis
      by (simp add: add.commute)
  qed
qed

lemma axis0_take_rows:
  assumes "shape L = [n, m]" and "length (data L) = n * m"
    and "length idx = n" and "list_all (\<lambda>i. i < n) idx"
  shows "take_rows L idx = Inr (NDArray [n, m] (concat (map (row L) idx)))"
    and "\<forall>i < n. row (NDArray [n, m] (concat (map (row L) idx))) i = row L (idx ! i)"
proof -
  show "take_rows L idx = Inr (NDArray [n, m] (concat (map (row L) idx)))"
    using assms by (simp add: take_rows_def row_def cong: map_cong)
  have "\<forall>r \<in> set (map (row L) idx). length r = m"
  proof
    fix r assume "r \<in> set (map (row L) idx)"
    then obtain j where "j \<in> set idx" "r = row L j" by auto
    with assms(4) have "j < n" by (simp add: list_all_iff)
    then have "r \<in> set (chunks m n (data L))"
      using \<open>r = row L j\<close> assms(1) by (simp add: row_def axis0_def)
    then show "length r = m"
      using assms(2) by (auto dest: chunks_all_length[rotated])
  qed
  from chunks_concat[OF this]
  have "axis0 (NDArray [n, m] (concat (map (row L) idx))) = map (row L) idx"
    using assms(3) by (simp add: axis0_def)
  then show "\<forall>i < n. row (NDArray [n, m] (concat (map (row L) idx))) i = row L (idx ! i)"
    using assms(3) by (simp add: row_def)
qed


lemma reconstructs_iff:
  "hd (shape A) = n \<Longrightarrow>
   reconstructs eps M A \<longleftrightarrow> (\<forall>i<n. \<forall>j<n. \<bar>gram_entry M i j - entry A i j\<bar> \<le> eps)"
  by (auto simp: reconstructs_def list_all_iff)

lemma reconstructs_permuted_iff:
  "hd (shape A) = n \<Longrightarrow>
   reconstructs_permuted eps L A pp
     \<longleftrightarrow> (\<forall>i<n. \<forall>j<n. \<bar>gram_entry L i j - entry A (pp ! i) (pp ! j)\<bar> \<le> eps)"
  by (auto simp: reconstructs_permuted_def list_all_iff)

lemma argsort_in_range:
  assumes "is_permutation pp n"
  shows "list_all (\<lambda>i. i < n) (argsort pp)"
  using argsort_inverse[OF assms] is_permutation_length[OF assms]
  by (simp add: list_all_length)

lemma unpermuted_reconstructs:
  assumes A: "shape A = [n, n]" and perm: "is_permutation pp n"
    and L: "shape L = [n, m]" "length (data L) = n * m"
    and rec: "reconstructs_permuted eps L A pp"
  defines "M \<equiv> NDArray [n, m] (concat (map (row L) (argsort pp)))"
  shows "take_rows L (argsort pp) = Inr M"
    and "\<forall>i<n. row M (pp ! i) = row L i"
    and "reconstructs eps M A"
proof -
  have len: "length (argsort pp) = n"
    using perm by (simp add: is_permutation_length)
  note ax = axis0_take_rows[OF L len argsort_in_range[OF perm]]
  show "take_rows L (argsort pp) = Inr M"
    using ax(1) by (simp add: M_def)
  have rows: "\<forall>i<n. row M i = row L (argsort pp ! i)"
    using ax(2) by (simp add: M_def)
  have pr: "\<forall>i<n. pp ! i < n"
    using is_permutation_set[OF perm] is_permutation_length[OF perm] by auto
  show "\<forall>i<n. row M (pp ! i) = row L i"
    using rows pr argsort_inverse_left[OF perm] by simp
  have hd: "hd (shape A) = n" using A by simp
  show "reconstructs eps M A"
    unfolding reconstructs_iff[OF hd]
  proof (intro allI impI)
    fix i j assume ij: "i < n" "j < n"
    let ?a = "argsort pp ! i" and ?b = "argsort pp ! j"
    from argsort_inverse[OF perm ij(1)] argsort_inverse[OF perm ij(2)]
    have ab: "?a < n" "pp ! ?a = i" "?b < n" "pp ! ?b = j" by auto
    from rec[unfolded reconstructs_permuted_iff[OF hd]] ab(1,3)
    have "\<bar>gram_entry L ?a ?b - entry A (pp ! ?a) (pp ! ?b)\<bar> \<le> eps" by blast
    moreover have "gram_entry M i j = gram_entry L ?a ?b"
      using rows ij by (simp add: gram_entry_def)
    ultimately show "\<bar>gram_entry M i j - entry A i j\<bar> \<le> eps"
      using ab by simp
  qed
qed

text \<open>
  Claim C8. Dense path: \<open>L()\<close> is the factor \<open>dpotrf\<close> returned, unchanged, so that it
  reconstructs \<open>A\<close> within the tolerance \<open>eps\<close> the routine achieved. Sparse path: when
  CHOLMOD's factor reconstructs \<open>A\<close> taken in the fill-reducing order \<open>pp\<close> within \<open>eps\<close>,
  the matrix \<open>L()\<close> returns has the factor's row \<open>i\<close> as its row \<open>pp ! i\<close> (the rows are put back
  in the original order) and reconstructs \<open>A\<close> itself within the same \<open>eps\<close>.
\<close>

theorem L_reconstructs:
  "(shape A \<noteq> [0, 0] \<and> dpotrf bk A True = Inr (L, 0) \<and> reconstructs eps L A \<longrightarrow>
      bind (PosDefSolver_init hc bk (Dense A)) (PosDefSolver_L bk)
        = (Inr (Dense L), [Call DPOTRF])
      \<and> reconstructs eps (toarray (Dense L)) A)
   \<and> (shape A = [n, n] \<and> cholmod_cholesky bk A = Inr f \<and> factor_D bk f = Inr dd
        \<and> factor_P bk f = Inr pp \<and> factor_L bk f = Inr L
        \<and> is_permutation pp n \<and> shape L = [n, m] \<and> length (data L) = n * m
        \<and> reconstructs_permuted eps L A pp \<longrightarrow>
      (\<exists>M. bind (PosDefSolver_init True bk (Sparse A)) (PosDefSolver_L bk)
             = (Inr (Sparse M),
                [Call CHOLMOD_CHOLESKY, Call CHOLMOD_D, Call CHOLMOD_P, Call CHOLMOD_L])
           \<and> (\<forall>i<n. row M (pp ! i) = row L i)
           \<and> reconstructs eps (toarray (Sparse M)) A))"
proof (intro conjI impI)
  assume h: "shape A \<noteq> [0, 0] \<and> dpotrf bk A True = Inr (L, 0) \<and> reconstructs eps L A"
  then show "bind (PosDefSolver_init hc bk (Dense A)) (PosDefSolver_L bk)
        = (Inr (Dense L), [Call DPOTRF])"
    by (simp add: PosDefSolver_init_def DensePosDefSolver_init_def cholesky_def
        PosDefSolver_L_def DensePosDefSolver_L_def as_sparse_or_array_def issparse_def
        toarray_def effect_defs)
  from h show "reconstructs eps (toarray (Dense L)) A"
    by (simp add: toarray_def)
next
  assume h: "shape A = [n, n] \<and> cholmod_cholesky bk A = Inr f \<and> factor_D bk f = Inr dd
        \<and> factor_P bk f = Inr pp \<and> factor_L bk f = Inr L
        \<and> is_permutation pp n \<and> shape L = [n, m] \<and> length (data L) = n * m
        \<and> reconstructs_permuted eps L A pp"
  let ?M = "NDArray [n, m] (concat (map (row L) (argsort pp)))"
  from h have u: "take_rows L (argsort pp) = Inr ?M"
    "\<forall>i<n. row ?M (pp ! i) = row L i" "reconstructs eps ?M A"
    using unpermuted_reconstructs[of A n pp L m eps] by blast+
  have "bind (PosDefSolver_init True bk (Sparse A)) (PosDefSolver_L bk)
        = (Inr (Sparse ?M),
           [Call CHOLMOD_CHOLESKY, Call CHOLMOD_D, Call CHOLMOD_P, Call CHOLMOD_L])"
    using h u(1)
    by (simp add: PosDefSolver_init_def SparsePosDefSolver_init_def PosDefSolver_L_def
        SparsePosDefSolver_L_def as_sparse_or_array_def issparse_def toarray_def effect_defs
        Let_def)
  with u(2,3) show "\<exists>M. bind (PosDefSolver_init True bk (Sparse A)) (PosDefSolver_L bk)
             = (Inr (Sparse M),
                [Call CHOLMOD_CHOLESKY, Call CHOLMOD_D, Call CHOLMOD_P, Call CHOLMOD_L])
           \<and> (\<forall>i<n. row M (pp ! i) = row L i)
           \<and> reconstructs eps (toarray (Sparse M)) A"
    by (intro exI[of _ ?M]) (simp add: toarray_def)
qed

lemma upt_2 [simp]: "[0..<2] = [0, 1]"
  by (simp add: upt_rec)

lemma upt_3 [simp]: "[0..<3] = [0, 1, 2]"
  by (simp add: upt_rec)

theorem L_reconstructs_witness:
  "shape I3 \<noteq> [0, 0] \<and> dpotrf saddle_backend I3 True = Inr (I3, 0) \<and> reconstructs 0 I3 I3
   \<and> bind (PosDefSolver_init True saddle_backend (Dense I3)) (PosDefSolver_L saddle_backend)
       = (Inr (Dense I3), [Call DPOTRF])
   \<and> shape A22 = [2, 2] \<and> cholmod_cholesky cholmod_backend A22 = Inr 0
   \<and> factor_P cholmod_backend 0 = Inr [1, 0]
   \<and> factor_L cholmod_backend 0 = Inr (NDArray [2, 2] [2, 0, 1, 1])
   \<and> is_permutation [1, 0] 2
   \<and> reconstructs_permuted 0 (NDArray [2, 2] [2, 0, 1, 1]) A22 [1, 0]
   \<and> bind (PosDefSolver_init True cholmod_backend (Sparse A22)) (PosDefSolver_L cholmod_backend)
       = (Inr (Sparse (NDArray [2, 2] [1, 1, 2, 0])),
          [Call CHOLMOD_CHOLESKY, Call CHOLMOD_D, Call CHOLMOD_P, Call CHOLMOD_L])
   \<and> reconstructs 0 (NDArray [2, 2] [1, 1, 2, 0]) A22"
  using L_reconstructs [where A = I3 and bk = saddle_backend and L = I3 and eps = 0
      and hc = True]
    L_reconstructs [where A = A22 and bk = cholmod_backend and n = 2 and f = 0
      and dd = "NDArray [2] [4, 1]" and pp = "[1, 0]" and L = "NDArray [2, 2] [2, 0, 1, 1]"
      and m = 2 and eps = 0]
  by (simp add: array_defs effect_defs solver_defs fixture_defs
      reconstructs_def reconstructs_permuted_def gram_entry_def entry_def row_def
      is_permutation_def)

section \<open>solve_L and the factor returned by L\<close>

















text \<open>
  With an entry of \<open>D\<close> that is not positive the run is outside the model: numpy divides by
  zero there.
\<close>

lemma solve_L_nonpositive_D:
  "PosDefSolver_solve_L cholmod_backend
     (SparsePosDefSolver 0 (NDArray [2] [0, 1]) [1, 0]) (Dense b22)
   = (Inl NonFiniteResult, [Call CHOLMOD_SOLVE_L])"
  by (simp add: array_defs effect_defs solver_defs fixture_defs positive_entries_def)

section \<open>The upper triangle of the input\<close>

text \<open>
  Claim C9. Let \<open>A\<close> and \<open>A'\<close> be dense square matrices with the same lower triangle,
  diagonal included. The module reads \<open>A\<close> in one place only, the call of \<open>dpotrf\<close> with
  \<open>lower\<close> set; so, \<open>dpotrf\<close> not referencing the upper triangle, the two solvers are
  equal, and \<open>solve\<close>, \<open>solve_L\<close>, \<open>L\<close> and \<open>log_det\<close> give identical results, events
  included.
\<close>

theorem upper_triangle_ignored:
  assumes "reads_lower_only (dpotrf bk)"
    and "wf A" and "wf A'" and "shape A = [n, n]" and "shape A' = [n, n]"
    and "tril A = tril A'"
  shows "PosDefSolver_init hc bk (Dense A) = PosDefSolver_init hc bk (Dense A')
       \<and> bind (PosDefSolver_init hc bk (Dense A)) (\<lambda>s. PosDefSolver_solve bk s b)
         = bind (PosDefSolver_init hc bk (Dense A')) (\<lambda>s. PosDefSolver_solve bk s b)
       \<and> bind (PosDefSolver_init hc bk (Dense A)) (\<lambda>s. PosDefSolver_solve_L bk s b)
         = bind (PosDefSolver_init hc bk (Dense A')) (\<lambda>s. PosDefSolver_solve_L bk s b)
       \<and> bind (PosDefSolver_init hc bk (Dense A)) (PosDefSolver_L bk)
         = bind (PosDefSolver_init hc bk (Dense A')) (PosDefSolver_L bk)
       \<and> bind (PosDefSolver_init hc bk (Dense A)) PosDefSolver_log_det
         = bind (PosDefSolver_init hc bk (Dense A')) PosDefSolver_log_det"
proof -
  have "dpotrf bk A True = dpotrf bk A' True"
    using assms unfolding reads_lower_only_def by metis
  then have "cholesky bk A True = cholesky bk A' True"
    using assms(4,5) by (simp add: cholesky_def)
  then have "PosDefSolver_init hc bk (Dense A) = PosDefSolver_init hc bk (Dense A')"
    by (simp add: PosDefSolver_init_def DensePosDefSolver_init_def as_sparse_or_array_def
        issparse_def toarray_def)
  then show ?thesis by simp
qed

theorem upper_triangle_ignored_witness:
  "reads_lower_only (dpotrf lower_backend)
   \<and> wf A45 \<and> wf A45_upper \<and> shape A45 = [2, 2] \<and> shape A45_upper = [2, 2]
   \<and> tril A45 = tril A45_upper \<and> A45 \<noteq> A45_upper
   \<and> PosDefSolver_init True lower_backend (Dense A45)
       = (Inr (DensePosDefSolver (NDArray [2, 2] [2, 0, 1, 2])), [Call DPOTRF])
   \<and> PosDefSolver_init True lower_backend (Dense A45_upper)
       = (Inr (DensePosDefSolver (NDArray [2, 2] [2, 0, 1, 2])), [Call DPOTRF])"
proof -
  have r: "reads_lower_only (dpotrf lower_backend)"
    by (simp add: reads_lower_only_def lower_backend_def)
  have w: "wf A45" "wf A45_upper" "shape A45 = [2, 2]" "shape A45_upper = [2, 2]"
    by (simp_all add: wf_def A45_def A45_upper_def)
  have t: "tril A45 = NDArray [2, 2] [4, 0, 2, 5]" "tril A45_upper = NDArray [2, 2] [4, 0, 2, 5]"
    by (simp_all add: tril_def A45_def A45_upper_def upt_rec)
  have i: "PosDefSolver_init True lower_backend (Dense A45)
       = (Inr (DensePosDefSolver (NDArray [2, 2] [2, 0, 1, 2])), [Call DPOTRF])"
    using t(1)
    by (simp add: array_defs effect_defs solver_defs fixture_defs)
  from upper_triangle_ignored [OF r w, where hc = True] t i
  show ?thesis using r w by (simp add: A45_def A45_upper_def)
qed

section \<open>The caller's arrays\<close>

lemma extends_iff:
  "extends h h' \<longleftrightarrow> top h \<le> top h' \<and> (\<forall>a<top h. objs h' a = objs h a)"
  by (auto simp: extends_def list_all_iff)

lemma extends_refl [simp]: "extends h h"
  by (simp add: extends_iff)

lemma extends_trans: "extends h h' \<Longrightarrow> extends h' h'' \<Longrightarrow> extends h h''"
  by (auto simp: extends_iff)

named_theorems frame_intros

lemma frame_ret [frame_intros]: "frame (ret_m x)"
  by (simp add: frame_def ret_m_def)

lemma frame_raise [frame_intros]: "frame (raise_m e)"
  by (simp add: frame_def raise_m_def)

lemma frame_look [frame_intros]: "frame (look a)"
  by (simp add: frame_def look_def)

lemma frame_new [frame_intros]: "frame (new v)"
  by (simp add: frame_def new_def extends_iff)

lemma frame_bind [frame_intros]:
  assumes "frame m" and "\<And>x. frame (f x)"
  shows "frame (bind_m m f)"
  unfolding frame_def
proof
  fix h
  obtain r h' where m: "m h = (r, h')" by (cases "m h")
  from assms(1) have "extends h (snd (m h))" by (simp add: frame_def)
  with m have 1: "extends h h'" by simp
  show "extends h (snd (bind_m m f h))"
  proof (cases r)
    case (Inl e)
    with m 1 show ?thesis by (simp add: bind_m_def)
  next
    case (Inr x)
    have "extends h' (snd (f x h'))" using assms(2)[of x] by (simp add: frame_def)
    with 1 have "extends h (snd (f x h'))" by (rule extends_trans)
    with m Inr show ?thesis by (simp add: bind_m_def)
  qed
qed

lemma frame_ext [frame_intros]:
  assumes "\<And>h. extends h (snd (r h))"
  shows "frame (ext r)"
  unfolding frame_def
proof
  fix h
  show "extends h (snd (ext r h))"
    using assms[of h] by (cases "r h"; cases "fst (r h)") (auto simp: ext_def)
qed

lemma frame_fresh_array [frame_intros]: "frame (fresh_array r)"
  by (cases r) (simp_all add: fresh_array_def frame_intros)

lemma frame_if [frame_intros]: "frame m1 \<Longrightarrow> frame m2 \<Longrightarrow> frame (if c then m1 else m2)"
  by simp

lemma frame_case_prod [frame_intros]:
  "(\<And>a b. frame (f a b)) \<Longrightarrow> frame (case x of (a, b) \<Rightarrow> f a b)"
  by (cases x) simp

lemma frame_case_sum [frame_intros]:
  "(\<And>e. frame (f e)) \<Longrightarrow> (\<And>v. frame (g v)) \<Longrightarrow> frame (case x of Inl e \<Rightarrow> f e | Inr v \<Rightarrow> g v)"
  by (cases x) simp_all

lemma frame_as_array [frame_intros]: "frame (as_array_m a)"
  unfolding as_array_m_def by (intro frame_intros)

lemma frame_as_sparse_or_array [frame_intros]: "frame (as_sparse_or_array_m a)"
  unfolding as_sparse_or_array_m_def by (intro frame_intros)

lemma frame_stack2 [frame_intros]: "frame (stack2 f sp x y)"
  unfolding stack2_def by (intro frame_intros)

lemma frame_negate [frame_intros]: "frame (negate x)"
  unfolding negate_def by (intro frame_intros)

lemma frame_transposed [frame_intros]: "frame (transposed x)"
  unfolding transposed_def by (intro frame_intros)

lemma frame_lu [frame_intros]: "keeps_inputs bk \<Longrightarrow> frame (lu_m bk a)"
  unfolding lu_m_def by (intro frame_intros) (simp add: keeps_inputs_def)

lemma frame_solve_lu [frame_intros]: "keeps_inputs bk \<Longrightarrow> frame (solve_lu_m bk fac piv b)"
  unfolding solve_lu_m_def by (intro frame_intros) (simp add: keeps_inputs_def)

lemma frame_cholesky [frame_intros]: "keeps_inputs bk \<Longrightarrow> frame (cholesky_m bk a lower)"
  unfolding cholesky_m_def by (intro frame_intros) (simp add: keeps_inputs_def)

lemma frame_solve_cholesky [frame_intros]:
  "keeps_inputs bk \<Longrightarrow> frame (solve_cholesky_m bk L b lower)"
  unfolding solve_cholesky_m_def by (intro frame_intros) (simp add: keeps_inputs_def)

lemma frame_solve_triangular [frame_intros]:
  "keeps_inputs bk \<Longrightarrow> frame (solve_triangular_m bk L b lower)"
  unfolding solve_triangular_m_def by (intro frame_intros) (simp add: keeps_inputs_def)


lemma frame_Solver_init: "keeps_inputs bk \<Longrightarrow> frame (Solver_init_m bk a)"
  unfolding Solver_init_m_def by (intro frame_intros) (simp_all add: keeps_inputs_def)

lemma frame_Solver_solve: "keeps_inputs bk \<Longrightarrow> frame (Solver_solve_m bk s b)"
  unfolding Solver_solve_m_def
  by (cases s) (auto intro!: frame_intros simp: keeps_inputs_def)

lemma frame_SparsePosDefSolver_init:
  "keeps_inputs bk \<Longrightarrow> frame (SparsePosDefSolver_init_m bk a)"
  unfolding SparsePosDefSolver_init_m_def
  by (intro frame_intros) (simp_all add: keeps_inputs_def)

lemma frame_PosDefSolver_init: "keeps_inputs bk \<Longrightarrow> frame (PosDefSolver_init_m hc bk a)"
  unfolding PosDefSolver_init_m_def
  by (intro frame_intros frame_SparsePosDefSolver_init)

lemma frame_PosDefSolver_solve: "keeps_inputs bk \<Longrightarrow> frame (PosDefSolver_solve_m bk s b)"
  unfolding PosDefSolver_solve_m_def
  by (cases s) (auto intro!: frame_intros simp: keeps_inputs_def)

lemma frame_SparsePosDefSolver_solve_L:
  "keeps_inputs bk \<Longrightarrow> frame (SparsePosDefSolver_solve_L_m bk f dd pp b)"
  unfolding SparsePosDefSolver_solve_L_m_def
  by (intro frame_intros) (simp_all add: keeps_inputs_def)

lemma frame_PosDefSolver_solve_L: "keeps_inputs bk \<Longrightarrow> frame (PosDefSolver_solve_L_m bk s b)"
  unfolding PosDefSolver_solve_L_m_def
  by (cases s) (auto intro!: frame_intros frame_SparsePosDefSolver_solve_L)

lemma frame_PosDefSolver_L: "keeps_inputs bk \<Longrightarrow> frame (PosDefSolver_L_m bk s)"
  unfolding PosDefSolver_L_m_def SparsePosDefSolver_L_m_def
  by (cases s) (auto intro!: frame_intros simp: keeps_inputs_def)

lemma frame_PosDefSolver_log_det: "frame (PosDefSolver_log_det_m s)"
  unfolding PosDefSolver_log_det_m_def
  by (cases s) (auto intro!: frame_intros)

lemma frame_PartitionedSolver_init:
  "keeps_inputs bk \<Longrightarrow> frame (PartitionedSolver_init_m bk a b)"
  unfolding PartitionedSolver_init_m_def
  by (auto intro!: frame_intros frame_Solver_init split: list.splits)

lemma frame_PartitionedSolver_solve:
  "keeps_inputs bk \<Longrightarrow> frame (PartitionedSolver_solve_m bk ps a b)"
  unfolding PartitionedSolver_solve_m_def
  by (cases ps) (auto intro!: frame_intros frame_Solver_solve)

lemma frame_PartitionedPosDefSolver_init:
  "keeps_inputs bk \<Longrightarrow> frame (PartitionedPosDefSolver_init_m hc bk a b)"
  unfolding PartitionedPosDefSolver_init_m_def
  by (auto intro!: frame_intros frame_PosDefSolver_init frame_PosDefSolver_solve
      split: list.splits)

lemma frame_PartitionedPosDefSolver_solve:
  "keeps_inputs bk \<Longrightarrow> frame (PartitionedPosDefSolver_solve_m bk ps a b)"
  unfolding PartitionedPosDefSolver_solve_m_def
  by (cases ps) (auto intro!: frame_intros frame_PosDefSolver_solve)

text \<open>
  Claim C10. When the external routines keep their contract, then from every heap, every
  construction and every solve of Solver, PosDefSolver, PartitionedSolver and
  PartitionedPosDefSolver leaves every object that existed before the call unchanged at its
  address: in particular the caller's \<open>A\<close>, \<open>B\<close> and right-hand sides, which the module holds
  without copying. This holds whether the call returns or raises.
\<close>

theorem inputs_unchanged:
  assumes "keeps_inputs bk"
  shows "extends h (snd (Solver_init_m bk a h))
       \<and> extends h (snd (Solver_solve_m bk s b h))
       \<and> extends h (snd (PosDefSolver_init_m hc bk a h))
       \<and> extends h (snd (PosDefSolver_solve_m bk ps b h))
       \<and> extends h (snd (PosDefSolver_solve_L_m bk ps b h))
       \<and> extends h (snd (PartitionedSolver_init_m bk a b h))
       \<and> extends h (snd (PartitionedSolver_solve_m bk pts a b h))
       \<and> extends h (snd (PartitionedPosDefSolver_init_m hc bk a b h))
       \<and> extends h (snd (PartitionedPosDefSolver_solve_m bk ppds a b h))"
  using frame_Solver_init[OF assms, of a] frame_Solver_solve[OF assms, of s b]
    frame_PosDefSolver_init[OF assms, of hc a] frame_PosDefSolver_solve[OF assms, of ps b]
    frame_PosDefSolver_solve_L[OF assms, of ps b]
    frame_PartitionedSolver_init[OF assms, of a b]
    frame_PartitionedSolver_solve[OF assms, of pts a b]
    frame_PartitionedPosDefSolver_init[OF assms, of hc a b]
    frame_PartitionedPosDefSolver_solve[OF assms, of ppds a b]
  by (simp add: frame_def)

lemma extends_store_result: "extends h (snd (store_result False a v h))"
  by (simp add: store_result_def extends_iff)

lemma extends_returning: "extends h (snd (returning False a h r))"
  by (auto simp: returning_def store_result_def extends_iff split: sum.splits prod.splits)

lemma extends_returning_new: "extends h (snd (returning_new sp h r))"
  by (auto simp: returning_new_def store_result_def extends_iff split: sum.splits prod.splits)

lemma keeps_inputs_in_memory: "keeps_inputs (in_memory vb)"
  by (simp add: keeps_inputs_def in_memory_def extends_returning extends_returning_new)


lemmas memory_defs =
  ret_m_def raise_m_def bind_m_def new_def look_def fresh_array_def ext_def extends_def
  as_sparse_or_array_m_def as_array_m_def lu_m_def solve_lu_m_def cholesky_m_def
  solve_cholesky_m_def solve_triangular_m_def Solver_init_m_def Solver_solve_m_def
  SparsePosDefSolver_init_m_def SparsePosDefSolver_solve_L_m_def SparsePosDefSolver_L_m_def
  PosDefSolver_init_m_def PosDefSolver_solve_m_def PosDefSolver_solve_L_m_def
  PosDefSolver_L_m_def PosDefSolver_log_det_m_def stack2_def PartitionedSolver_init_m_def
  PartitionedSolver_solve_m_def PartitionedPosDefSolver_init_m_def negate_def transposed_def
  PartitionedPosDefSolver_solve_m_def store_result_def returning_def returning_new_def
  arr_def in_memory_def saddle_heap_def A45_heap_def

text \<open>
  The flag matters: asked to overwrite, \<open>dpotrf\<close> changes the caller's matrix. The module
  never asks.
\<close>

lemma overwrite_changes_input:
  "\<not> extends A45_heap (snd (dpotrf_m (in_memory lower_backend) 0 True True A45_heap))"
  by (simp add: memory_defs array_defs fixture_defs tril_def upt_rec)

theorem inputs_unchanged_witness:
  "keeps_inputs (in_memory saddle_backend)
   \<and> extends saddle_heap (snd (PartitionedSolver_init_m (in_memory saddle_backend) 0 1 saddle_heap))
   \<and> fst (PartitionedSolver_init_m (in_memory saddle_backend) 0 1 saddle_heap)
       = Inr (PartitionedSolver_m (DenseSolver_m 7 [0, 1, 2, 3]) 3)
   \<and> objs (snd (PartitionedSolver_init_m (in_memory saddle_backend) 0 1 saddle_heap)) 0
       = Dense I3
   \<and> objs (snd (PartitionedSolver_init_m (in_memory saddle_backend) 0 1 saddle_heap)) 1
       = Dense ones31
   \<and> extends saddle_heap
        (snd (PartitionedPosDefSolver_init_m True (in_memory saddle_backend) 0 1 saddle_heap))"
proof -
  have k: "keeps_inputs (in_memory saddle_backend)" by (rule keeps_inputs_in_memory)
  note u = inputs_unchanged [OF k, where h = saddle_heap and a = 0 and b = 1 and hc = True]
  have r: "fst (PartitionedSolver_init_m (in_memory saddle_backend) 0 1 saddle_heap)
       = Inr (PartitionedSolver_m (DenseSolver_m 7 [0, 1, 2, 3]) 3)"
    by (simp add: memory_defs array_defs fixture_defs)
  from u have e: "extends saddle_heap
      (snd (PartitionedSolver_init_m (in_memory saddle_backend) 0 1 saddle_heap))" by simp
  then have "objs (snd (PartitionedSolver_init_m (in_memory saddle_backend) 0 1 saddle_heap)) 0
       = Dense I3"
    "objs (snd (PartitionedSolver_init_m (in_memory saddle_backend) 0 1 saddle_heap)) 1
       = Dense ones31"
    unfolding extends_iff by (simp_all add: saddle_heap_def)
  with k u r show ?thesis by simp
qed

end
